theory Spec2Isabelle
  imports Main "HOL-Library.Word" "HOL-Library.Monad_Syntax"
begin

section \<open>Process introspection on Windows: a model of \<open>process_info.c\<close>\<close>

text \<open>
  The C file talks to the operating system on almost every line. The model makes this
  explicit: a record \<open>os\<close> holds, for every system call the file uses, what the system
  answers when the call is made. Answers are indexed by the number of calls made so far
  (\<open>now\<close>), so that two calls of the same primitive may answer differently, as they do
  when the target process exits between them. A record \<open>world\<close> holds what the program
  itself owns: the process handles it has open, its heap allocations with their
  contents, the error it has set for R, its function-pointer statics, and the log of the
  system calls it has made.

  Every modelled C function returns \<open>('a \<times> world) option\<close>; \<open>None\<close> stands for
  undefined behaviour of the C program (signed overflow, a call through a NULL function
  pointer, a read or write outside an allocation).
\<close>

subsection \<open>Machine types\<close>

type_synonym byte = "8 word"
type_synonym WCHAR = "16 word"
type_synonym DWORD = "32 word"
type_synonym HANDLE = nat  \<comment> \<open>0 is NULL\<close>
type_synonym addr = nat    \<comment> \<open>an address, local or remote; 0 is NULL\<close>

definition INT_MAX :: int where
  "INT_MAX = 2147483647"

definition STILL_ACTIVE :: DWORD where
  "STILL_ACTIVE = 259"

definition ERROR_INVALID_PARAMETER :: DWORD where
  "ERROR_INVALID_PARAMETER = 87"

text \<open>Width of \<open>SIZE_T\<close> and of a pointer: 64 bits when \<open>_WIN64\<close> is defined, else 32.\<close>

definition size_bits :: "bool \<Rightarrow> nat" where
  "size_bits win64 = (if win64 then 64 else 32)"

text \<open>Unsigned subtraction on \<open>n\<close> bits.\<close>

definition usub :: "nat \<Rightarrow> nat \<Rightarrow> nat \<Rightarrow> nat" where
  "usub n a b = (a mod 2 ^ n + 2 ^ n - b mod 2 ^ n) mod 2 ^ n"

subsection \<open>Errors, system calls, the program's world\<close>

text \<open>
  Modelled from the spec: the error helpers \<open>ps__access_denied\<close>, \<open>ps__no_such_process\<close>,
  \<open>ps__no_memory\<close>, \<open>ps__set_error_from_windows_error\<close> and \<open>ps__set_error\<close> live in
  \<open>common.c\<close>, which is not part of the sources. Each records the error that R will raise;
  the model keeps the last one set.
\<close>

datatype error =
    AccessDenied
  | NoSuchProcess DWORD
  | NoMemory
  | WindowsError
  | Message string

datatype symbol =
    NtQueryInformationProcess
  | NtWow64QueryInformationProcess64
  | NtWow64ReadVirtualMemory64
  | NtWow64QueryVirtualMemory64
  | NtQuerySystemInformation

text \<open>What a remote read is for: the structure or the text it fetches.\<close>

datatype target = PEB32 | Params32 | PEB64 | Params64 | PEB | Params | Data nat

datatype event =
    E_OpenProcess DWORD DWORD HANDLE
  | E_GetExitCodeProcess HANDLE bool
  | E_CloseHandle HANDLE
  | E_malloc nat addr
  | E_calloc nat addr
  | E_free addr
  | E_EnumProcesses nat "nat option"
  | E_GetProcAddress symbol bool
  | E_QueryWow64Information HANDLE bool
  | E_QueryBasicInformation HANDLE bool
  | E_Wow64QueryBasicInformation64 HANDLE bool
  | E_IsWow64Process HANDLE bool
  | E_ReadProcessMemory HANDLE target addr bool
  | E_Wow64ReadVirtualMemory64 HANDLE target addr bool
  | E_VirtualQueryEx HANDLE addr bool
  | E_Wow64QueryVirtualMemory64 HANDLE addr bool
  | E_LoadLibrary
  | E_FreeLibrary
  | E_QuerySystemInformation nat bool

text \<open>One entry of the system-wide snapshot: the two fields the scanner reads.\<close>

record SYSTEM_PROCESS_INFORMATION =
  NextEntryOffset :: nat
  UniqueProcessId :: nat

datatype contents =
    Uninit
  | Bytes "byte list"
  | Dwords "DWORD list"
  | Snapshot "(nat \<times> SYSTEM_PROCESS_INFORMATION) list"

type_synonym heap = "(addr \<times> nat \<times> contents) list"

record world =
  trace :: "event list"
  handles :: "HANDLE list"
  heap :: heap
  brk :: addr
  err :: "error option"
  last_error :: DWORD
  statics :: "symbol list"
  initialBufferSize :: nat
  ntdll_refs :: nat

definition now :: "world \<Rightarrow> nat" where
  "now w = length (trace w)"

definition log :: "event \<Rightarrow> world \<Rightarrow> world" where
  "log e w = w\<lparr>trace := trace w @ [e]\<rparr>"

definition set_error :: "error \<Rightarrow> world \<Rightarrow> world" where
  "set_error e w = w\<lparr>err := Some e\<rparr>"

text \<open>A system call fails when its event says so.\<close>

fun failed :: "event \<Rightarrow> bool" where
  "failed (E_OpenProcess _ _ h) = (h = 0)"
| "failed (E_GetExitCodeProcess _ ok) = (\<not> ok)"
| "failed (E_CloseHandle _) = False"
| "failed (E_malloc _ p) = (p = 0)"
| "failed (E_calloc _ p) = (p = 0)"
| "failed (E_free _) = False"
| "failed (E_EnumProcesses _ r) = (r = None)"
| "failed (E_GetProcAddress _ ok) = (\<not> ok)"
| "failed (E_QueryWow64Information _ ok) = (\<not> ok)"
| "failed (E_QueryBasicInformation _ ok) = (\<not> ok)"
| "failed (E_Wow64QueryBasicInformation64 _ ok) = (\<not> ok)"
| "failed (E_IsWow64Process _ ok) = (\<not> ok)"
| "failed (E_ReadProcessMemory _ _ _ ok) = (\<not> ok)"
| "failed (E_Wow64ReadVirtualMemory64 _ _ _ ok) = (\<not> ok)"
| "failed (E_VirtualQueryEx _ _ ok) = (\<not> ok)"
| "failed (E_Wow64QueryVirtualMemory64 _ _ ok) = (\<not> ok)"
| "failed E_LoadLibrary = False"
| "failed E_FreeLibrary = False"
| "failed (E_QuerySystemInformation _ ok) = (\<not> ok)"

subsection \<open>The operating system\<close>

text \<open>
  The fields the remote structures of a process hold that the file reads:
  \<open>RTL_USER_PROCESS_PARAMETERS\<close> in its three layouts has the same fields, of different
  widths; a \<open>UNICODE_STRING\<close> is its \<open>Length\<close> (a \<open>USHORT\<close>) and its \<open>Buffer\<close>.
\<close>

record UNICODE_STRING =
  Length :: "16 word"
  Buffer :: addr

record RTL_USER_PROCESS_PARAMETERS =
  CurrentDirectoryPath :: UNICODE_STRING
  CommandLine :: UNICODE_STRING
  env :: addr

record MEMORY_BASIC_INFORMATION =
  BaseAddress :: nat
  RegionSize :: nat

datatype snapshot_status =
    STATUS_SUCCESS "(nat \<times> SYSTEM_PROCESS_INFORMATION) list"
  | STATUS_BUFFER_TOO_SMALL
  | STATUS_INFO_LENGTH_MISMATCH
  | STATUS_OTHER

record os =
  WIN64 :: bool
  PS__TESTING :: bool
  exports :: "symbol \<Rightarrow> bool"
  os_OpenProcess :: "nat \<Rightarrow> DWORD \<Rightarrow> DWORD \<Rightarrow> HANDLE \<times> DWORD"
  os_GetExitCodeProcess :: "nat \<Rightarrow> HANDLE \<Rightarrow> DWORD option"
  os_malloc :: "nat \<Rightarrow> nat \<Rightarrow> bool"
  os_EnumProcesses :: "nat \<Rightarrow> DWORD list option"
  os_QueryWow64Information :: "nat \<Rightarrow> HANDLE \<Rightarrow> addr option"
  os_QueryBasicInformation :: "nat \<Rightarrow> HANDLE \<Rightarrow> addr option"
  os_IsWow64Process :: "nat \<Rightarrow> HANDLE \<Rightarrow> bool option"
  os_ReadPEB :: "nat \<Rightarrow> HANDLE \<Rightarrow> addr \<Rightarrow> addr option"
  os_ReadParams :: "nat \<Rightarrow> HANDLE \<Rightarrow> addr \<Rightarrow> RTL_USER_PROCESS_PARAMETERS option"
  os_ReadData :: "nat \<Rightarrow> HANDLE \<Rightarrow> addr \<Rightarrow> nat \<Rightarrow> byte list option"
  os_VirtualQuery :: "nat \<Rightarrow> HANDLE \<Rightarrow> addr \<Rightarrow> MEMORY_BASIC_INFORMATION option"
  os_QuerySystemInformation :: "nat \<Rightarrow> nat \<Rightarrow> snapshot_status \<times> nat"

subsection \<open>Primitives: one system call each\<close>

definition heap_lookup :: "heap \<Rightarrow> addr \<Rightarrow> (nat \<times> contents) option" where
  "heap_lookup h p = map_of h p"

fun heap_remove :: "addr \<Rightarrow> heap \<Rightarrow> heap" where
  "heap_remove p [] = []"
| "heap_remove p ((q, b) # h) = (if p = q then h else (q, b) # heap_remove p h)"

fun heap_store :: "addr \<Rightarrow> contents \<Rightarrow> heap \<Rightarrow> heap" where
  "heap_store p c [] = []"
| "heap_store p c ((q, n, d) # h) =
     (if p = q then (q, n, c) # h else (q, n, d) # heap_store p c h)"

text \<open>
  \<open>malloc\<close> and \<open>calloc\<close>: the system decides whether memory is left; a block that is
  handed out gets an address not handed out before.
\<close>

definition malloc :: "os \<Rightarrow> nat \<Rightarrow> world \<Rightarrow> addr \<times> world" where
  "malloc os n w =
     (if os_malloc os (now w) n
      then let p = Suc (brk w)
           in (p, log (E_malloc n p) (w\<lparr>heap := (p, n, Uninit) # heap w, brk := p\<rparr>))
      else (0, log (E_malloc n 0) w))"

definition calloc :: "os \<Rightarrow> nat \<Rightarrow> world \<Rightarrow> addr \<times> world" where
  "calloc os n w =
     (if os_malloc os (now w) n
      then let p = Suc (brk w)
           in (p, log (E_calloc n p)
                    (w\<lparr>heap := (p, n, Bytes (replicate n 0)) # heap w, brk := p\<rparr>))
      else (0, log (E_calloc n 0) w))"

definition free :: "addr \<Rightarrow> world \<Rightarrow> world" where
  "free p w = (if p = 0 then w else log (E_free p) (w\<lparr>heap := heap_remove p (heap w)\<rparr>))"

definition OpenProcess :: "os \<Rightarrow> DWORD \<Rightarrow> DWORD \<Rightarrow> world \<Rightarrow> HANDLE \<times> world" where
  "OpenProcess os access pid w =
     (let (h, e) = os_OpenProcess os (now w) access pid
      in if h = 0 then (0, log (E_OpenProcess access pid 0) (w\<lparr>last_error := e\<rparr>))
         else (h, log (E_OpenProcess access pid h) (w\<lparr>handles := h # handles w\<rparr>)))"

definition CloseHandle :: "HANDLE \<Rightarrow> world \<Rightarrow> world" where
  "CloseHandle h w = log (E_CloseHandle h) (w\<lparr>handles := remove1 h (handles w)\<rparr>)"

definition GetExitCodeProcess :: "os \<Rightarrow> HANDLE \<Rightarrow> world \<Rightarrow> DWORD option \<times> world" where
  "GetExitCodeProcess os h w =
     (let r = os_GetExitCodeProcess os (now w) h
      in (r, log (E_GetExitCodeProcess h (\<not> Option.is_none r)) w))"

text \<open>
  \<open>EnumProcesses(buf, cb, &ret)\<close>: the system writes the identifiers of the live
  processes, as many as fit into \<open>cb\<close> bytes, and reports the bytes written.
\<close>

definition EnumProcesses :: "os \<Rightarrow> addr \<Rightarrow> nat \<Rightarrow> world \<Rightarrow> nat option \<times> world" where
  "EnumProcesses os buf cb w =
     (case os_EnumProcesses os (now w) of
        None \<Rightarrow> (None, log (E_EnumProcesses cb None) w)
      | Some live \<Rightarrow>
          let pids = take (cb div 4) live; ret = 4 * length pids
          in (Some ret,
              log (E_EnumProcesses cb (Some ret))
                (w\<lparr>heap := heap_store buf (Dwords pids) (heap w)\<rparr>)))"

subsection \<open>PID registry: \<open>ps__get_pids\<close>, \<open>ps__pid_in_pids\<close>\<close>

text \<open>
  One round of the \<open>do ... while\<close> loop of \<open>ps__get_pids\<close>, entered with the capacity
  already raised: it either leaves the function (\<open>Inr\<close>, with the returned pointer and
  count) or asks for another round (\<open>Inl\<close>, with the array just filled).
  \<open>procArraySz * sizeof(DWORD)\<close> is computed in \<open>size_t\<close>; \<open>procArrayByteSz\<close> is a
  \<open>DWORD\<close>.
\<close>

definition ps__get_pids_round ::
  "os \<Rightarrow> int \<Rightarrow> addr \<Rightarrow> nat \<Rightarrow> world \<Rightarrow> (addr + addr \<times> nat) \<times> world" where
  "ps__get_pids_round os procArraySz procArray numberOfReturnedPIDs w =
     (let w = free procArray w;
          full = nat ((procArraySz * 4) mod 2 ^ size_bits (WIN64 os));
          procArrayByteSz = full mod 2 ^ 32;
          (procArray, w) = malloc os procArrayByteSz w
      in if procArray = 0 then (Inr (0, numberOfReturnedPIDs), set_error NoMemory w)
         else case EnumProcesses os procArray procArrayByteSz w of
                (None, w) \<Rightarrow>
                  (Inr (0, numberOfReturnedPIDs), set_error WindowsError (free procArray w))
              | (Some enumReturnSz, w) \<Rightarrow>
                  if enumReturnSz = full then (Inl procArray, w)
                  else (Inr (procArray, enumReturnSz div 4), w))"

function ps__get_pids_loop ::
  "os \<Rightarrow> int \<Rightarrow> addr \<Rightarrow> nat \<Rightarrow> world \<Rightarrow> ((addr \<times> nat) \<times> world) option" where
  "ps__get_pids_loop os procArraySz procArray numberOfReturnedPIDs w =
     (if procArraySz + 1024 > INT_MAX then None
      else case ps__get_pids_round os (procArraySz + 1024) procArray numberOfReturnedPIDs w of
             (Inl procArray', w') \<Rightarrow>
               ps__get_pids_loop os (procArraySz + 1024) procArray' numberOfReturnedPIDs w'
           | (Inr r, w') \<Rightarrow> Some (r, w'))"
  by pat_completeness auto
termination
  by (relation "measure (\<lambda>(os, sz, p, n, w). nat (INT_MAX - sz))") (auto simp: INT_MAX_def)

declare ps__get_pids_loop.simps [simp del]

text \<open>
  \<open>ps__get_pids\<close>: the pointer returned (NULL on error) and the value of
  \<open>*numberOfReturnedPIDs\<close> afterwards, which is written on success only.
\<close>

definition ps__get_pids :: "os \<Rightarrow> nat \<Rightarrow> world \<Rightarrow> ((addr \<times> nat) \<times> world) option" where
  "ps__get_pids os numberOfReturnedPIDs w = ps__get_pids_loop os 0 0 numberOfReturnedPIDs w"

text \<open>
  \<open>ps__pid_in_pids\<close>: 1 if the PID is listed, 0 if not, -1 on error. Its local
  \<open>numberOfReturnedPIDs\<close> is not initialised; it is read only after \<open>ps__get_pids\<close> wrote it.
\<close>

definition ps__pid_in_pids :: "os \<Rightarrow> DWORD \<Rightarrow> world \<Rightarrow> (int \<times> world) option" where
  "ps__pid_in_pids os pid w =
     do {
       ((proclist, numberOfReturnedPIDs), w) \<leftarrow> ps__get_pids os 0 w;
       if proclist = 0 then Some (- 1, w)
       else case heap_lookup (heap w) proclist of
              Some (_, Dwords pids) \<Rightarrow>
                if numberOfReturnedPIDs \<le> length pids
                then if pid \<in> set (take numberOfReturnedPIDs pids)
                     then Some (1, free proclist w)
                     else Some (0, free proclist w)
                else None
            | _ \<Rightarrow> None
     }"

definition ps__assert_pid_exists :: "os \<Rightarrow> DWORD \<Rightarrow> string \<Rightarrow> world \<Rightarrow> (int \<times> world) option" where
  "ps__assert_pid_exists os pid msg w =
     (if PS__TESTING os
      then do {
        (r, w) \<leftarrow> ps__pid_in_pids os pid w;
        if r = 0 then Some (0, set_error (Message msg) w) else Some (1, w)
      }
      else Some (1, w))"

definition ps__assert_pid_not_exists ::
  "os \<Rightarrow> DWORD \<Rightarrow> string \<Rightarrow> world \<Rightarrow> (int \<times> world) option" where
  "ps__assert_pid_not_exists os pid msg w =
     (if PS__TESTING os
      then do {
        (r, w) \<leftarrow> ps__pid_in_pids os pid w;
        if r = 1 then Some (0, set_error (Message msg) w) else Some (1, w)
      }
      else Some (1, w))"

subsection \<open>Handle lifecycle: \<open>ps__is_phandle_running\<close> and its callers\<close>

definition ps__is_phandle_running :: "os \<Rightarrow> HANDLE \<Rightarrow> DWORD \<Rightarrow> world \<Rightarrow> (int \<times> world) option" where
  "ps__is_phandle_running os hProcess pid w =
     (if hProcess = 0
      then if last_error w = ERROR_INVALID_PARAMETER
           then do {
             (a, w) \<leftarrow> ps__assert_pid_not_exists os pid
                         ''iphr: OpenProcess() -> ERROR_INVALID_PARAMETER'' w;
             if a = 0 then Some (- 2, w) else Some (0, w)
           }
           else Some (- 1, w)
      else case GetExitCodeProcess os hProcess w of
             (Some processExitCode, w) \<Rightarrow>
               if processExitCode = STILL_ACTIVE
               then do {
                 (a, w) \<leftarrow> ps__assert_pid_exists os pid
                             ''iphr: GetExitCodeProcess() -> STILL_ACTIVE'' w;
                 if a = 0 then Some (- 2, CloseHandle hProcess w) else Some (1, w)
               }
               else do {
                 (r, w) \<leftarrow> ps__pid_in_pids os pid w;
                 if r = 1 then Some (1, w) else Some (0, CloseHandle hProcess w)
               }
           | (None, w) \<Rightarrow>
               do {
                 (a, w) \<leftarrow> ps__assert_pid_not_exists os pid ''iphr: exit fun''
                             (CloseHandle hProcess w);
                 if a = 0 then Some (- 2, w) else Some (- 1, w)
               })"

definition ps__check_phandle :: "os \<Rightarrow> HANDLE \<Rightarrow> DWORD \<Rightarrow> world \<Rightarrow> (HANDLE \<times> world) option" where
  "ps__check_phandle os hProcess pid w =
     do {
       (ret, w) \<leftarrow> ps__is_phandle_running os hProcess pid w;
       if ret = 1 then Some (hProcess, w)
       else if ret = 0 then Some (0, set_error (NoSuchProcess pid) w)
       else if ret = - 1 then Some (0, set_error WindowsError w)
       else Some (0, w)
     }"

definition ps__handle_from_pid_waccess ::
  "os \<Rightarrow> DWORD \<Rightarrow> DWORD \<Rightarrow> world \<Rightarrow> (HANDLE \<times> world) option" where
  "ps__handle_from_pid_waccess os pid dwDesiredAccess w =
     (if pid = 0 then Some (0, set_error AccessDenied w)
      else let (hProcess, w) = OpenProcess os dwDesiredAccess pid w
           in ps__check_phandle os hProcess pid w)"

definition PROCESS_QUERY_INFORMATION :: DWORD where
  "PROCESS_QUERY_INFORMATION = 0x0400"

definition PROCESS_VM_READ :: DWORD where
  "PROCESS_VM_READ = 0x0010"

definition ps__handle_from_pid :: "os \<Rightarrow> DWORD \<Rightarrow> world \<Rightarrow> (HANDLE \<times> world) option" where
  "ps__handle_from_pid os pid w =
     ps__handle_from_pid_waccess os pid (or PROCESS_QUERY_INFORMATION PROCESS_VM_READ) w"

subsection \<open>Primitives used by \<open>ps__get_process_data\<close>\<close>

text \<open>
  A function pointer kept in a \<open>static\<close>: looked up with \<open>GetProcAddress\<close> while it is
  NULL, kept once found. The result says whether the pointer is non-NULL afterwards.
\<close>

definition resolve :: "os \<Rightarrow> symbol \<Rightarrow> world \<Rightarrow> bool \<times> world" where
  "resolve os s w =
     (if s \<in> set (statics w) then (True, w)
      else if exports os s
           then (True, log (E_GetProcAddress s True) (w\<lparr>statics := s # statics w\<rparr>))
           else (False, log (E_GetProcAddress s False) w))"

definition QueryWow64Information :: "os \<Rightarrow> HANDLE \<Rightarrow> world \<Rightarrow> addr option \<times> world" where
  "QueryWow64Information os h w =
     (let r = os_QueryWow64Information os (now w) h
      in (r, log (E_QueryWow64Information h (\<not> Option.is_none r)) w))"

definition QueryBasicInformation :: "os \<Rightarrow> HANDLE \<Rightarrow> world \<Rightarrow> addr option \<times> world" where
  "QueryBasicInformation os h w =
     (let r = os_QueryBasicInformation os (now w) h
      in (r, log (E_QueryBasicInformation h (\<not> Option.is_none r)) w))"

definition Wow64QueryBasicInformation64 :: "os \<Rightarrow> HANDLE \<Rightarrow> world \<Rightarrow> addr option \<times> world" where
  "Wow64QueryBasicInformation64 os h w =
     (let r = os_QueryBasicInformation os (now w) h
      in (r, log (E_Wow64QueryBasicInformation64 h (\<not> Option.is_none r)) w))"

definition GetCurrentProcess :: HANDLE where
  "GetCurrentProcess = 4294967295"

definition IsWow64Process :: "os \<Rightarrow> HANDLE \<Rightarrow> world \<Rightarrow> bool option \<times> world" where
  "IsWow64Process os h w =
     (let r = os_IsWow64Process os (now w) h
      in (r, log (E_IsWow64Process h (\<not> Option.is_none r)) w))"

text \<open>
  Reading a remote structure: the system answers with the fields the file uses (from a
  PEB the address of the parameters, from the parameters the three text descriptors), or
  fails. \<open>wow\<close> selects \<open>NtWow64ReadVirtualMemory64\<close> instead of \<open>ReadProcessMemory\<close>.
\<close>

definition read_event :: "bool \<Rightarrow> HANDLE \<Rightarrow> target \<Rightarrow> addr \<Rightarrow> bool \<Rightarrow> event" where
  "read_event wow h t a ok =
     (if wow then E_Wow64ReadVirtualMemory64 h t a ok else E_ReadProcessMemory h t a ok)"

definition read_peb ::
  "os \<Rightarrow> bool \<Rightarrow> target \<Rightarrow> HANDLE \<Rightarrow> addr \<Rightarrow> world \<Rightarrow> addr option \<times> world" where
  "read_peb os wow t h a w =
     (let r = os_ReadPEB os (now w) h a
      in (r, log (read_event wow h t a (\<not> Option.is_none r)) w))"

definition read_params ::
  "os \<Rightarrow> bool \<Rightarrow> target \<Rightarrow> HANDLE \<Rightarrow> addr \<Rightarrow> world
     \<Rightarrow> RTL_USER_PROCESS_PARAMETERS option \<times> world" where
  "read_params os wow t h a w =
     (let r = os_ReadParams os (now w) h a
      in (r, log (read_event wow h t a (\<not> Option.is_none r)) w))"

text \<open>
  Reading \<open>size\<close> bytes of remote text into the local \<open>buffer\<close>. The call succeeds when
  the system delivers all \<open>size\<close> bytes (no \<open>NumberOfBytesRead\<close> is asked for); they
  overwrite the first \<open>size\<close> bytes of the buffer. A buffer shorter than \<open>size\<close> would be
  overrun: undefined.
\<close>

definition read_data ::
  "os \<Rightarrow> bool \<Rightarrow> HANDLE \<Rightarrow> addr \<Rightarrow> addr \<Rightarrow> nat \<Rightarrow> world \<Rightarrow> (bool \<times> world) option" where
  "read_data os wow h src buffer size' w =
     (case os_ReadData os (now w) h src size' of
        None \<Rightarrow> Some (False, log (read_event wow h (Data size') src False) w)
      | Some bs \<Rightarrow>
          if length bs \<noteq> size'
          then Some (False, log (read_event wow h (Data size') src False) w)
          else case heap_lookup (heap w) buffer of
                 Some (n, Bytes old) \<Rightarrow>
                   if size' \<le> n \<and> length old = n
                   then Some (True,
                          log (read_event wow h (Data size') src True)
                            (w\<lparr>heap := heap_store buffer (Bytes (bs @ drop size' old)) (heap w)\<rparr>))
                   else None
               | _ \<Rightarrow> None)"

definition VirtualQueryEx ::
  "os \<Rightarrow> HANDLE \<Rightarrow> addr \<Rightarrow> world \<Rightarrow> MEMORY_BASIC_INFORMATION option \<times> world" where
  "VirtualQueryEx os h src w =
     (let r = os_VirtualQuery os (now w) h src
      in (r, log (E_VirtualQueryEx h src (\<not> Option.is_none r)) w))"

definition Wow64QueryVirtualMemory64 ::
  "os \<Rightarrow> HANDLE \<Rightarrow> addr \<Rightarrow> world \<Rightarrow> MEMORY_BASIC_INFORMATION option \<times> world" where
  "Wow64QueryVirtualMemory64 os h src w =
     (let r = os_VirtualQuery os (now w) h src
      in (r, log (E_Wow64QueryVirtualMemory64 h src (\<not> Option.is_none r)) w))"

subsection \<open>Region size probes\<close>

text \<open>
  \<open>ps__get_process_region_size\<close>: \<open>Some size\<close> stands for return value 0 with \<open>*psize\<close>
  written, \<open>None\<close> for -1. The subtraction is the one of \<open>SIZE_T\<close>.
\<close>

definition ps__get_process_region_size ::
  "os \<Rightarrow> HANDLE \<Rightarrow> addr \<Rightarrow> world \<Rightarrow> nat option \<times> world" where
  "ps__get_process_region_size os hProcess src w =
     (case VirtualQueryEx os hProcess src w of
        (None, w) \<Rightarrow> (None, set_error WindowsError w)
      | (Some info, w) \<Rightarrow>
          let bits = size_bits (WIN64 os)
          in (Some (usub bits (RegionSize info) (usub bits src (BaseAddress info))), w))"

text \<open>
  \<open>ps__get_process_region_size64\<close> exists in the 32-bit build only: the region size is
  a \<open>ULONG64\<close>, the two addresses are cut to \<open>DWORD32\<close> before they are subtracted.
\<close>

definition ps__get_process_region_size64 ::
  "os \<Rightarrow> HANDLE \<Rightarrow> addr \<Rightarrow> world \<Rightarrow> nat option \<times> world" where
  "ps__get_process_region_size64 os hProcess src64 w =
     (case resolve os NtWow64QueryVirtualMemory64 w of
        (False, w) \<Rightarrow> (None, set_error (Message ''NtWow64QueryVirtualMemory64 missing'') w)
      | (True, w) \<Rightarrow>
          (case Wow64QueryVirtualMemory64 os hProcess src64 w of
             (None, w) \<Rightarrow> (None, set_error WindowsError w)
           | (Some info64, w) \<Rightarrow>
               (Some (usub 64 (RegionSize info64) (usub 32 src64 (BaseAddress info64))), w)))"

subsection \<open>\<open>ps__get_process_data\<close>\<close>

datatype ps__process_data_kind = KIND_CMDLINE | KIND_CWD | KIND_ENVIRON

text \<open>
  The three ways the function reads the target, named as the specification names them.
  In the C file they are the three blocks commented "We are 64 bit. Target process is 32
  bit running in WoW64 mode", "We are 32 bit running in WoW64 mode. Target process is 64
  bit" and "Target process is of the same bitness as us".
\<close>

datatype BitnessMode = Native | TargetNarrowerThanCaller | TargetWiderThanCaller

text \<open>The \<open>switch (kind)\<close> that ends each of the three blocks; \<open>size\<close> was initialised to 0.\<close>

definition select_field ::
  "ps__process_data_kind \<Rightarrow> RTL_USER_PROCESS_PARAMETERS \<Rightarrow> addr \<times> nat" where
  "select_field kind procParameters =
     (case kind of
        KIND_CMDLINE \<Rightarrow>
          (Buffer (CommandLine procParameters), unat (Length (CommandLine procParameters)))
      | KIND_CWD \<Rightarrow>
          (Buffer (CurrentDirectoryPath procParameters),
           unat (Length (CurrentDirectoryPath procParameters)))
      | KIND_ENVIRON \<Rightarrow> (env procParameters, 0))"

text \<open>
  Lines 492-504 and 539-547: which block runs. In the 64-bit build the target is asked
  for its WoW64 PEB (\<open>ppeb32\<close>); in the 32-bit build both processes are asked whether they
  run under WoW64, the second only if the first call succeeded. The result is the block
  chosen together with \<open>ppeb32\<close>; \<open>None\<close> in the first component is \<open>goto error\<close>. A NULL
  \<open>NtQueryInformationProcess\<close> (\<open>ntqip\<close> false) is called without a check.
\<close>

definition gpd_mode ::
  "os \<Rightarrow> bool \<Rightarrow> HANDLE \<Rightarrow> world \<Rightarrow> ((BitnessMode \<times> addr) option \<times> world) option" where
  "gpd_mode os ntqip hProcess w =
     (if WIN64 os
      then if \<not> ntqip then None
           else case QueryWow64Information os hProcess w of
                  (None, w) \<Rightarrow> Some (None, set_error WindowsError w)
                | (Some ppeb32, w) \<Rightarrow>
                    if ppeb32 \<noteq> 0 then Some (Some (TargetNarrowerThanCaller, ppeb32), w)
                    else Some (Some (Native, ppeb32), w)
      else case IsWow64Process os GetCurrentProcess w of
             (None, w) \<Rightarrow> Some (None, set_error WindowsError w)
           | (Some weAreWow64, w) \<Rightarrow>
               (case IsWow64Process os hProcess w of
                  (None, w) \<Rightarrow> Some (None, set_error WindowsError w)
                | (Some theyAreWow64, w) \<Rightarrow>
                    if weAreWow64 \<and> \<not> theyAreWow64
                    then Some (Some (TargetWiderThanCaller, 0), w)
                    else Some (Some (Native, 0), w)))"

text \<open>Lines 504-538: 64-bit caller, 32-bit target. \<open>None\<close> is \<open>goto error\<close>.\<close>

definition gpd_target32 ::
  "os \<Rightarrow> ps__process_data_kind \<Rightarrow> HANDLE \<Rightarrow> addr \<Rightarrow> world \<Rightarrow> (addr \<times> nat) option \<times> world" where
  "gpd_target32 os kind hProcess ppeb32 w =
     (case read_peb os False PEB32 hProcess ppeb32 w of
        (None, w) \<Rightarrow> (None, set_error WindowsError w)
      | (Some ProcessParameters, w) \<Rightarrow>
          (case read_params os False Params32 hProcess ProcessParameters w of
             (None, w) \<Rightarrow> (None, set_error WindowsError w)
           | (Some procParameters32, w) \<Rightarrow> (Some (select_field kind procParameters32), w)))"

text \<open>Lines 547-620: 32-bit caller under WoW64, 64-bit target; the address is \<open>src64\<close>.\<close>

definition gpd_target64 ::
  "os \<Rightarrow> ps__process_data_kind \<Rightarrow> HANDLE \<Rightarrow> world \<Rightarrow> (addr \<times> nat) option \<times> world" where
  "gpd_target64 os kind hProcess w =
     (case resolve os NtWow64QueryInformationProcess64 w of
        (False, w) \<Rightarrow>
          (None, set_error (Message ''NtWow64QueryInformationProcess64 missing'') w)
      | (True, w) \<Rightarrow>
     (case Wow64QueryBasicInformation64 os hProcess w of
        (None, w) \<Rightarrow> (None, set_error WindowsError w)
      | (Some PebBaseAddress, w) \<Rightarrow>
     (case resolve os NtWow64ReadVirtualMemory64 w of
        (False, w) \<Rightarrow> (None, set_error (Message ''NtWow64ReadVirtualMemory64 missing'') w)
      | (True, w) \<Rightarrow>
     (case read_peb os True PEB64 hProcess PebBaseAddress w of
        (None, w) \<Rightarrow> (None, set_error WindowsError w)
      | (Some ProcessParameters, w) \<Rightarrow>
     (case read_params os True Params64 hProcess ProcessParameters w of
        (None, w) \<Rightarrow> (None, set_error WindowsError w)
      | (Some procParameters64, w) \<Rightarrow> (Some (select_field kind procParameters64), w))))))"

text \<open>Lines 623-671: caller and target of the same bitness.\<close>

definition gpd_native ::
  "os \<Rightarrow> bool \<Rightarrow> ps__process_data_kind \<Rightarrow> HANDLE \<Rightarrow> world
     \<Rightarrow> ((addr \<times> nat) option \<times> world) option" where
  "gpd_native os ntqip kind hProcess w =
     (if \<not> ntqip then None
      else Some
     (case QueryBasicInformation os hProcess w of
        (None, w) \<Rightarrow> (None, set_error WindowsError w)
      | (Some PebBaseAddress, w) \<Rightarrow>
     (case read_peb os False PEB hProcess PebBaseAddress w of
        (None, w) \<Rightarrow> (None, set_error WindowsError w)
      | (Some ProcessParameters, w) \<Rightarrow>
     (case read_params os False Params hProcess ProcessParameters w of
        (None, w) \<Rightarrow> (None, set_error WindowsError w)
      | (Some procParameters, w) \<Rightarrow> (Some (select_field kind procParameters), w)))))"

text \<open>
  Lines 673-687: the length of the environment is not known; it is probed. In the 32-bit
  build, for a 64-bit target, the 64-bit probe is used and its result cut to \<open>SIZE_T\<close>.
\<close>

definition gpd_size ::
  "os \<Rightarrow> BitnessMode \<Rightarrow> ps__process_data_kind \<Rightarrow> HANDLE \<Rightarrow> addr \<Rightarrow> nat \<Rightarrow> world
     \<Rightarrow> nat option \<times> world" where
  "gpd_size os mode kind hProcess src size' w =
     (if kind = KIND_ENVIRON
      then if mode = TargetWiderThanCaller
           then case ps__get_process_region_size64 os hProcess src w of
                  (None, w) \<Rightarrow> (None, w)
                | (Some size64, w) \<Rightarrow> (Some (size64 mod 2 ^ size_bits (WIN64 os)), w)
           else ps__get_process_region_size os hProcess src w
      else (Some size', w))"

text \<open>The label \<open>error\<close>: close the handle, free the buffer, return -1.\<close>

definition gpd_error :: "HANDLE \<Rightarrow> addr \<Rightarrow> world \<Rightarrow> world" where
  "gpd_error hProcess buffer w =
     (let w = (if hProcess \<noteq> 0 then CloseHandle hProcess w else w)
      in if buffer \<noteq> 0 then free buffer w else w)"

text \<open>
  Lines 689-718: allocate \<open>size + 2\<close> zeroed bytes (the sum is a \<open>SIZE_T\<close>), copy, close the
  handle, write the two outputs. The outputs are passed in and returned:
  \<open>(result, *pdata, *psize)\<close>.
\<close>

definition gpd_copy ::
  "os \<Rightarrow> BitnessMode \<Rightarrow> HANDLE \<Rightarrow> addr \<Rightarrow> nat \<Rightarrow> addr \<Rightarrow> nat \<Rightarrow> world
     \<Rightarrow> ((int \<times> addr \<times> nat) \<times> world) option" where
  "gpd_copy os mode hProcess src size' pdata psize w =
     (let (buffer, w) = calloc os ((size' + 2) mod 2 ^ size_bits (WIN64 os)) w
      in if buffer = 0
         then Some ((- 1, pdata, psize), gpd_error hProcess buffer (set_error NoMemory w))
         else do {
           (ok, w) \<leftarrow> read_data os (mode = TargetWiderThanCaller) hProcess src buffer size' w;
           if \<not> ok
           then Some ((- 1, pdata, psize), gpd_error hProcess buffer (set_error WindowsError w))
           else Some ((0, buffer, size'), CloseHandle hProcess w)
         })"

definition ps__get_process_data ::
  "os \<Rightarrow> DWORD \<Rightarrow> ps__process_data_kind \<Rightarrow> addr \<Rightarrow> nat \<Rightarrow> world
     \<Rightarrow> ((int \<times> addr \<times> nat) \<times> world) option" where
  "ps__get_process_data os pid kind pdata psize w =
     do {
       (hProcess, w) \<leftarrow> ps__handle_from_pid os pid w;
       if hProcess = 0 then Some ((- 1, pdata, psize), w)
       else do {
         let (ntqip, w) = resolve os NtQueryInformationProcess w;
         (m, w) \<leftarrow> gpd_mode os ntqip hProcess w;
         case m of
           None \<Rightarrow> Some ((- 1, pdata, psize), gpd_error hProcess 0 w)
         | Some (mode, ppeb32) \<Rightarrow>
             do {
               (d, w) \<leftarrow> (case mode of
                            TargetNarrowerThanCaller \<Rightarrow>
                              Some (gpd_target32 os kind hProcess ppeb32 w)
                          | TargetWiderThanCaller \<Rightarrow> Some (gpd_target64 os kind hProcess w)
                          | Native \<Rightarrow> gpd_native os ntqip kind hProcess w);
               case d of
                 None \<Rightarrow> Some ((- 1, pdata, psize), gpd_error hProcess 0 w)
               | Some (src, size') \<Rightarrow>
                   (case gpd_size os mode kind hProcess src size' w of
                      (None, w) \<Rightarrow> Some ((- 1, pdata, psize), gpd_error hProcess 0 w)
                    | (Some size', w) \<Rightarrow> gpd_copy os mode hProcess src size' pdata psize w)
             }
       }
     }"

subsection \<open>\<open>ps__get_cwd\<close>\<close>

text \<open>The local buffer seen as an array of \<open>WCHAR\<close>: two bytes each, low byte first.\<close>

definition wchar :: "byte \<Rightarrow> byte \<Rightarrow> WCHAR" where
  "wchar lo hi = or (ucast lo) (push_bit 8 (ucast hi))"

fun wchars :: "byte list \<Rightarrow> WCHAR list" where
  "wchars (lo # hi # bs) = wchar lo hi # wchars bs"
| "wchars _ = []"

fun bytes_of :: "WCHAR list \<Rightarrow> byte list" where
  "bytes_of [] = []"
| "bytes_of (c # cs) = ucast c # ucast (drop_bit 8 c) # bytes_of cs"

text \<open>
  \<open>wcslen\<close> counts the characters before the first terminator; without a terminator
  inside the array it reads beyond it (\<open>None\<close>).
\<close>

definition wcslen :: "WCHAR list \<Rightarrow> nat option" where
  "wcslen data = (if 0 \<in> set data then Some (length (takeWhile (\<lambda>c. c \<noteq> 0) data)) else None)"

text \<open>The text a \<open>WCHAR\<close> array holds: the characters before the first terminator.\<close>

definition text_of :: "WCHAR list \<Rightarrow> WCHAR list" where
  "text_of data = takeWhile (\<lambda>c. c \<noteq> 0) data"

definition backslash :: WCHAR where
  "backslash = 0x5C"

text \<open>
  Lines 780-782 of \<open>ps__get_cwd\<close>: \<open>size = wcslen(data); if (data[size - 1] == L'\\')
  data[size - 1] = L'\0';\<close>. With \<open>size = 0\<close> the index is outside the array.
\<close>

definition cwd_trim :: "WCHAR list \<Rightarrow> WCHAR list option" where
  "cwd_trim data =
     (case wcslen data of
        None \<Rightarrow> None
      | Some size' \<Rightarrow>
          if size' = 0 then None
          else if data ! (size' - 1) = backslash then Some (data[size' - 1 := 0])
          else Some data)"

text \<open>
  \<open>ps__get_cwd\<close>: \<open>None\<close> in the first component is \<open>R_NilValue\<close>. The helper
  \<open>ps__utf16_to_charsxp(data, -1)\<close> is not part of the sources; it turns the text up to
  the first terminator into an R string, which the model keeps as its UTF-16 code units.
  \<open>PROTECT_PTR\<close> leaves the buffer allocated, for R to release.
\<close>

definition ps__get_cwd :: "os \<Rightarrow> DWORD \<Rightarrow> world \<Rightarrow> (WCHAR list option \<times> world) option" where
  "ps__get_cwd os pid w =
     do {
       ((r, data, size'), w) \<leftarrow> ps__get_process_data os pid KIND_CWD 0 0 w;
       if r \<noteq> 0 then Some (None, w)
       else case heap_lookup (heap w) data of
              Some (n, Bytes bs) \<Rightarrow>
                do {
                  cells \<leftarrow> cwd_trim (wchars bs);
                  Some (Some (text_of cells),
                        w\<lparr>heap := heap_store data
                                     (Bytes (bytes_of cells @ drop (2 * length cells) bs))
                                     (heap w)\<rparr>)
                }
            | _ \<Rightarrow> None
     }"

subsection \<open>Fallback scanner: \<open>ps__get_proc_info\<close>\<close>

text \<open>
  \<open>GetProcAddress\<close> on \<open>ntdll.dll\<close>: whether the symbol is exported; the pointer is NULL
  when it is not.
\<close>

definition GetProcAddress :: "os \<Rightarrow> symbol \<Rightarrow> world \<Rightarrow> bool \<times> world" where
  "GetProcAddress os s w = (exports os s, log (E_GetProcAddress s (exports os s)) w)"

definition LoadLibrary :: "world \<Rightarrow> world" where
  "LoadLibrary w = log E_LoadLibrary (w\<lparr>ntdll_refs := Suc (ntdll_refs w)\<rparr>)"

definition FreeLibrary :: "world \<Rightarrow> world" where
  "FreeLibrary w = log E_FreeLibrary (w\<lparr>ntdll_refs := ntdll_refs w - 1\<rparr>)"

text \<open>
  \<open>NtQuerySystemInformation(SystemProcessInformation, buffer, bufferSize, &bufferSize)\<close>:
  the status and the length the system reports; on success the buffer holds the
  snapshot, each record at its byte offset.
\<close>

definition QuerySystemInformation ::
  "os \<Rightarrow> addr \<Rightarrow> nat \<Rightarrow> world \<Rightarrow> (snapshot_status \<times> nat) \<times> world" where
  "QuerySystemInformation os buffer bufferSize w =
     (let (status, len) = os_QuerySystemInformation os (now w) bufferSize
      in case status of
           STATUS_SUCCESS recs \<Rightarrow>
             ((status, len),
              log (E_QuerySystemInformation bufferSize True)
                (w\<lparr>heap := heap_store buffer (Snapshot recs) (heap w)\<rparr>))
         | _ \<Rightarrow> ((status, len), log (E_QuerySystemInformation bufferSize False) w))"

definition too_small :: "snapshot_status \<Rightarrow> bool" where
  "too_small status =
     (case status of
        STATUS_BUFFER_TOO_SMALL \<Rightarrow> True
      | STATUS_INFO_LENGTH_MISMATCH \<Rightarrow> True
      | _ \<Rightarrow> False)"

text \<open>
  The \<open>while (TRUE)\<close> loop, lines 861-878. Nothing bounds the number of rounds: the
  function is partial, \<open>None\<close> when the system never stops asking for a larger buffer. A
  NULL buffer in the result is the \<open>goto error\<close> after a failed \<open>malloc\<close>.
\<close>

partial_function (option) ps__get_proc_info_query ::
  "os \<Rightarrow> addr \<Rightarrow> nat \<Rightarrow> world \<Rightarrow> ((snapshot_status \<times> addr \<times> nat) \<times> world) option" where
  "ps__get_proc_info_query os buffer bufferSize w =
     (case QuerySystemInformation os buffer bufferSize w of
        ((status, bufferSize), w) \<Rightarrow>
          if too_small status
          then case malloc os bufferSize (free buffer w) of
                 (buffer, w) \<Rightarrow>
                   if buffer = 0 then Some ((status, 0, bufferSize), set_error NoMemory w)
                   else ps__get_proc_info_query os buffer bufferSize w
          else Some ((status, buffer, bufferSize), w))"

text \<open>
  The \<open>do ... while\<close> loop, lines 888-899, over the records of a buffer of \<open>n\<close> bytes:
  \<open>Some (Some o)\<close> when the record at offset \<open>o\<close> has the PID, \<open>Some None\<close> when the chain
  ends without one, \<open>None\<close> when the walk leaves the buffer or lands where no record is.
\<close>

function ps__get_proc_info_walk ::
  "(nat \<times> SYSTEM_PROCESS_INFORMATION) list \<Rightarrow> nat \<Rightarrow> nat \<Rightarrow> DWORD \<Rightarrow> nat option option" where
  "ps__get_proc_info_walk recs n process pid =
     (if n \<le> process then None
      else case map_of recs process of
             None \<Rightarrow> None
           | Some r \<Rightarrow>
               if UniqueProcessId r = unat pid then Some (Some process)
               else if NextEntryOffset r \<noteq> 0
                    then ps__get_proc_info_walk recs n (process + NextEntryOffset r) pid
                    else Some None)"
  by pat_completeness auto
termination
  by (relation "measure (\<lambda>(recs, n, process, pid). n - process)") auto

declare ps__get_proc_info_walk.simps [simp del]

text \<open>The label \<open>error\<close> of \<open>ps__get_proc_info\<close>.\<close>

definition gpi_error :: "addr \<Rightarrow> world \<Rightarrow> world" where
  "gpi_error buffer w = (let w = FreeLibrary w in if buffer \<noteq> 0 then free buffer w else w)"

text \<open>
  \<open>ps__get_proc_info\<close>: the result and the two outputs, \<open>(result, *retProcess,
  *retBuffer)\<close>; \<open>*retProcess\<close> is the address of the record found, the buffer's address
  plus the record's offset. The pointer to \<open>NtQuerySystemInformation\<close> is not tested before
  the first call through it.
\<close>

definition ps__get_proc_info ::
  "os \<Rightarrow> DWORD \<Rightarrow> addr \<Rightarrow> addr \<Rightarrow> world \<Rightarrow> ((int \<times> addr \<times> addr) \<times> world) option" where
  "ps__get_proc_info os pid retProcess retBuffer w =
     (let w = LoadLibrary w;
          (ntqsi, w) = GetProcAddress os NtQuerySystemInformation w;
          bufferSize = initialBufferSize w;
          (buffer, w) = malloc os bufferSize w
      in if buffer = 0
         then Some ((0, retProcess, retBuffer), gpi_error buffer (set_error NoMemory w))
         else if \<not> ntqsi then None
         else do {
           ((status, buffer, bufferSize), w) \<leftarrow>
             ps__get_proc_info_query os buffer bufferSize w;
           if buffer = 0 then Some ((0, retProcess, retBuffer), gpi_error buffer w)
           else case status of
             STATUS_SUCCESS _ \<Rightarrow>
               (let w = (if bufferSize \<le> 0x20000
                         then w\<lparr>initialBufferSize := bufferSize\<rparr> else w)
                in case heap_lookup (heap w) buffer of
                     Some (n, Snapshot recs) \<Rightarrow>
                       (case ps__get_proc_info_walk recs n 0 pid of
                          None \<Rightarrow> None
                        | Some (Some process) \<Rightarrow>
                            Some ((1, buffer + process, buffer), w)
                        | Some None \<Rightarrow>
                            Some ((0, retProcess, retBuffer),
                                  gpi_error buffer (set_error (NoSuchProcess pid) w)))
                   | _ \<Rightarrow> None)
           | _ \<Rightarrow>
               Some ((0, retProcess, retBuffer),
                     gpi_error buffer
                       (set_error
                          (Message ''NtQuerySystemInformation() syscall failed'') w))
         })"

subsection \<open>Vocabulary of the properties\<close>

text \<open>The caller's array: nothing when the pointer is NULL, else the newest block.\<close>

definition owns :: "addr \<Rightarrow> heap \<Rightarrow> world \<Rightarrow> bool" where
  "owns p H w = (if p = 0 then heap w = H else (\<exists>b. heap w = (p, b) # H))"

text \<open>
  A step that only talks to the system: it leaves handles and heap alone and appends
  the events \<open>es\<close> to the log.
\<close>

definition quiet :: "world \<Rightarrow> world \<Rightarrow> event list \<Rightarrow> bool" where
  "quiet w w' es = (handles w' = handles w \<and> heap w' = heap w \<and> trace w' = trace w @ es)"

text \<open>
  The events that count as a failed step of \<open>ps__get_process_data\<close>: every failed call
  but the lookup of \<open>NtQueryInformationProcess\<close>, whose result the function does not test.
\<close>

definition step_failed :: "event \<Rightarrow> bool" where
  "step_failed e = (failed e \<and> e \<noteq> E_GetProcAddress NtQueryInformationProcess False)"


text \<open>The calls of \<open>EnumProcesses\<close> in a log: the capacity passed in bytes, the size returned.\<close>

fun enum_calls :: "event list \<Rightarrow> (nat \<times> nat option) list" where
  "enum_calls [] = []"
| "enum_calls (E_EnumProcesses cb r # es) = (cb, r) # enum_calls es"
| "enum_calls (_ # es) = enum_calls es"

text \<open>
  A buffer holds the chain \<open>rs\<close> from offset \<open>off\<close> on: each record stands at the offset the
  one before it names, the last one names offset 0, no other does.
\<close>

fun chain :: "(nat \<times> SYSTEM_PROCESS_INFORMATION) list \<Rightarrow> nat
                \<Rightarrow> SYSTEM_PROCESS_INFORMATION list \<Rightarrow> bool" where
  "chain recs off [] = False"
| "chain recs off [r] = (map_of recs off = Some r \<and> NextEntryOffset r = 0)"
| "chain recs off (r # r' # rs) =
     (map_of recs off = Some r \<and> NextEntryOffset r \<noteq> 0 \<and>
      chain recs (off + NextEntryOffset r) (r' # rs))"

fun chain_offsets :: "nat \<Rightarrow> SYSTEM_PROCESS_INFORMATION list \<Rightarrow> nat list" where
  "chain_offsets off [] = []"
| "chain_offsets off (r # rs) = off # chain_offsets (off + NextEntryOffset r) rs"

text \<open>The offset of the first record of the chain that carries the PID.\<close>

fun first_match :: "nat \<Rightarrow> nat \<Rightarrow> SYSTEM_PROCESS_INFORMATION list \<Rightarrow> nat option" where
  "first_match pid off [] = None"
| "first_match pid off (r # rs) =
     (if UniqueProcessId r = pid then Some off
      else first_match pid (off + NextEntryOffset r) rs)"

text \<open>
  The query loop owns one block, the newest of the heap, and ends owning one (or none,
  after a failed \<open>malloc\<close>); on success the block holds the snapshot.
\<close>

definition query_post ::
  "addr \<Rightarrow> world \<Rightarrow> (snapshot_status \<times> addr \<times> nat) \<times> world \<Rightarrow> bool" where
  "query_post buffer w y =
     (\<forall>H n0 c. buffer \<noteq> 0 \<and> heap w = (buffer, n0, c) # H \<longrightarrow>
        (case y of ((status, b', s'), w') \<Rightarrow>
           handles w' = handles w \<and> ntdll_refs w' = ntdll_refs w \<and>
           initialBufferSize w' = initialBufferSize w \<and>
           (if b' = 0 then heap w' = H \<and> err w' = Some NoMemory \<and> too_small status
            else \<exists>n c'. heap w' = (b', n, c') # H \<and>
                   (\<forall>recs. status = STATUS_SUCCESS recs \<longrightarrow> c' = Snapshot recs))))"

subsection \<open>Concrete systems and worlds to run the model on\<close>

text \<open>A world in which nothing has happened yet.\<close>

definition w0 :: world where
  "w0 = \<lparr>trace = [], handles = [], heap = [], brk = 0, err = None, last_error = 0,
          statics = [], initialBufferSize = 0x4000, ntdll_refs = 1\<rparr>"

text \<open>
  A 64-bit build, not in testing mode, on a system where every call succeeds; the
  target has exited with code 0 and no memory is left for the PID array.
\<close>

definition os_exited_nomem :: os where
  "os_exited_nomem =
     \<lparr>WIN64 = True, PS__TESTING = False, exports = (\<lambda>s. True),
      os_OpenProcess = (\<lambda>t a p. (7, 0)),
      os_GetExitCodeProcess = (\<lambda>t h. Some 0),
      os_malloc = (\<lambda>t n. False),
      os_EnumProcesses = (\<lambda>t. Some []),
      os_QueryWow64Information = (\<lambda>t h. Some 0),
      os_QueryBasicInformation = (\<lambda>t h. Some 0),
      os_IsWow64Process = (\<lambda>t h. Some False),
      os_ReadPEB = (\<lambda>t h a. Some 0),
      os_ReadParams = (\<lambda>t h a. None),
      os_ReadData = (\<lambda>t h a n. None),
      os_VirtualQuery = (\<lambda>t h a. None),
      os_QuerySystemInformation = (\<lambda>t n. (STATUS_OTHER, 0))\<rparr>"

text \<open>
  A 64-bit build on a system where every call succeeds. The target, PID 42, is alive
  and native; its working directory is \<open>C:\\<close>, its command line \<open>ab\<close>, and its
  environment \<open>A=1\<close> lies 8 bytes into a region of 16 bytes.
\<close>

definition os_demo :: os where
  "os_demo =
     \<lparr>WIN64 = True, PS__TESTING = False, exports = (\<lambda>s. True),
      os_OpenProcess = (\<lambda>t a p. (7, 0)),
      os_GetExitCodeProcess = (\<lambda>t h. Some 259),
      os_malloc = (\<lambda>t n. True),
      os_EnumProcesses = (\<lambda>t. Some [4, 42]),
      os_QueryWow64Information = (\<lambda>t h. Some 0),
      os_QueryBasicInformation = (\<lambda>t h. Some 0x7FF000),
      os_IsWow64Process = (\<lambda>t h. Some (h = GetCurrentProcess)),
      os_ReadPEB = (\<lambda>t h a. Some 0x20000),
      os_ReadParams = (\<lambda>t h a.
         Some \<lparr>CurrentDirectoryPath = \<lparr>Length = 6, Buffer = 0x30000\<rparr>,
               CommandLine = \<lparr>Length = 4, Buffer = 0x30100\<rparr>,
               env = 0x40008\<rparr>),
      os_ReadData = (\<lambda>t h a n.
         if a = 0x30000 \<and> n = 6 then Some [0x43, 0, 0x3A, 0, 0x5C, 0]
         else if a = 0x30100 \<and> n = 4 then Some [0x61, 0, 0x62, 0]
         else if a = 0x40008 \<and> n = 8 then Some [0x41, 0, 0x3D, 0, 0x31, 0, 0, 0]
         else None),
      os_VirtualQuery = (\<lambda>t h a. Some \<lparr>BaseAddress = 0x40000, RegionSize = 16\<rparr>),
      os_QuerySystemInformation = (\<lambda>t n. (STATUS_OTHER, 0))\<rparr>"

text \<open>
  The same system with 1024 live processes, the identifiers 0, 4, ..., 4092: they fill the
  first array of 1024 slots, so that the enumeration has to grow the array and ask again.
\<close>

definition os_crowded :: os where
  "os_crowded =
     os_demo\<lparr>os_EnumProcesses := (\<lambda>t. Some (map (\<lambda>i. word_of_nat (4 * i)) [0..<1024]))\<rparr>"

text \<open>The same system, but the read of the text itself fails.\<close>

definition os_nocopy :: os where
  "os_nocopy = os_demo\<lparr>os_ReadData := (\<lambda>t h a n. None)\<rparr>"




text \<open>The worlds these systems lead to: after the open, after a failed and a good copy.\<close>

definition w_demo_open :: world where
  "w_demo_open =
     w0\<lparr>trace := [E_OpenProcess 0x410 42 7, E_GetExitCodeProcess 7 True], handles := [7]\<rparr>"

definition w_nocopy_cwd :: world where
  "w_nocopy_cwd =
     w0\<lparr>trace := [E_OpenProcess 0x410 42 7, E_GetExitCodeProcess 7 True,
                   E_GetProcAddress NtQueryInformationProcess True,
                   E_QueryWow64Information 7 True, E_QueryBasicInformation 7 True,
                   E_ReadProcessMemory 7 PEB 0x7FF000 True,
                   E_ReadProcessMemory 7 Params 0x20000 True,
                   E_calloc 8 1, E_ReadProcessMemory 7 (Data 6) 0x30000 False,
                   E_CloseHandle 7, E_free 1],
        brk := 1, err := Some WindowsError, statics := [NtQueryInformationProcess]\<rparr>"

definition w_demo_cwd :: world where
  "w_demo_cwd =
     w0\<lparr>trace := [E_OpenProcess 0x410 42 7, E_GetExitCodeProcess 7 True,
                   E_GetProcAddress NtQueryInformationProcess True,
                   E_QueryWow64Information 7 True, E_QueryBasicInformation 7 True,
                   E_ReadProcessMemory 7 PEB 0x7FF000 True,
                   E_ReadProcessMemory 7 Params 0x20000 True,
                   E_calloc 8 1, E_ReadProcessMemory 7 (Data 6) 0x30000 True,
                   E_CloseHandle 7],
        heap := [(1, 8, Bytes [0x43, 0, 0x3A, 0, 0x5C, 0, 0, 0])],
        brk := 1, statics := [NtQueryInformationProcess]\<rparr>"

text \<open>A snapshot of three records, and the chain they form.\<close>

definition snapshot_demo :: "(nat \<times> SYSTEM_PROCESS_INFORMATION) list" where
  "snapshot_demo =
     [(0, \<lparr>NextEntryOffset = 0x100, UniqueProcessId = 0\<rparr>),
      (0x100, \<lparr>NextEntryOffset = 0x180, UniqueProcessId = 4\<rparr>),
      (0x280, \<lparr>NextEntryOffset = 0, UniqueProcessId = 42\<rparr>)]"

definition chain_demo :: "SYSTEM_PROCESS_INFORMATION list" where
  "chain_demo =
     [\<lparr>NextEntryOffset = 0x100, UniqueProcessId = 0\<rparr>,
      \<lparr>NextEntryOffset = 0x180, UniqueProcessId = 4\<rparr>,
      \<lparr>NextEntryOffset = 0, UniqueProcessId = 42\<rparr>]"

text \<open>
  A system whose snapshot needs \<open>0x5000\<close> bytes: the first query, with the initial
  \<open>0x4000\<close>, is answered with a length mismatch, the second one succeeds.
\<close>

definition os_snapshot :: os where
  "os_snapshot =
     os_demo\<lparr>os_QuerySystemInformation :=
               (\<lambda>t n. if n < 0x5000 then (STATUS_INFO_LENGTH_MISMATCH, 0x5000)
                      else (STATUS_SUCCESS snapshot_demo, 0x4800))\<rparr>"

section \<open>Properties\<close>

subsection \<open>Effects of the primitives\<close>

lemma log_simps [simp]:
  "trace (log e w) = trace w @ [e]" "handles (log e w) = handles w" "heap (log e w) = heap w"
  "brk (log e w) = brk w" "err (log e w) = err w" "last_error (log e w) = last_error w"
  "statics (log e w) = statics w" "initialBufferSize (log e w) = initialBufferSize w"
  "ntdll_refs (log e w) = ntdll_refs w"
  by (simp_all add: log_def)

lemma set_error_simps [simp]:
  "trace (set_error e w) = trace w" "handles (set_error e w) = handles w"
  "heap (set_error e w) = heap w" "brk (set_error e w) = brk w"
  "err (set_error e w) = Some e" "last_error (set_error e w) = last_error w"
  "statics (set_error e w) = statics w"
  "initialBufferSize (set_error e w) = initialBufferSize w"
  "ntdll_refs (set_error e w) = ntdll_refs w"
  by (simp_all add: set_error_def)

subsection \<open>PID 0\<close>

text \<open>
  C6. For every access mask, \<open>ps__handle_from_pid_waccess\<close> called with PID 0 returns NULL
  with the error AccessDenied set, and nothing else of the world changes: the log of
  system calls is the one before the call, so no \<open>OpenProcess\<close> was attempted, and the
  error is not NoSuchProcess.
\<close>

theorem pid_zero_is_access_denied:
  "ps__handle_from_pid_waccess os 0 dwDesiredAccess w = Some (0, w\<lparr>err := Some AccessDenied\<rparr>)
   \<and> trace (w\<lparr>err := Some AccessDenied\<rparr>) = trace w
   \<and> handles (w\<lparr>err := Some AccessDenied\<rparr>) = handles w
   \<and> err (w\<lparr>err := Some AccessDenied\<rparr>) \<noteq> Some (NoSuchProcess 0)"
  by (simp add: ps__handle_from_pid_waccess_def set_error_def)

subsection \<open>An exit code that is not the sentinel\<close>

text \<open>
  C10. In \<open>ps__is_phandle_running\<close>, when \<open>GetExitCodeProcess\<close> succeeds with a code other
  than \<open>STILL_ACTIVE\<close>, the answer \<open>r\<close> of \<open>ps__pid_in_pids\<close> decides: exactly \<open>r = 1\<close> gives
  "running" (1) with the handle left open; every other answer, the error answer -1
  included, closes the handle and gives "not running" (0), which \<open>ps__check_phandle\<close>
  reports as NoSuchProcess, not as a Windows error.
\<close>

theorem membership_error_is_not_running:
  assumes "hProcess \<noteq> 0"
    and "GetExitCodeProcess os hProcess w = (Some code, w1)"
    and "code \<noteq> STILL_ACTIVE"
    and "ps__pid_in_pids os pid w1 = Some (r, w2)"
  shows "ps__is_phandle_running os hProcess pid w =
           Some (if r = 1 then (1, w2) else (0, CloseHandle hProcess w2))
         \<and> ps__check_phandle os hProcess pid w =
           Some (if r = 1 then (hProcess, w2)
                 else (0, set_error (NoSuchProcess pid) (CloseHandle hProcess w2)))
         \<and> handles (CloseHandle hProcess w2) = remove1 hProcess (handles w2)"
  using assms
  by (simp add: ps__is_phandle_running_def ps__check_phandle_def CloseHandle_def)

theorem membership_error_is_not_running_witness:
  "ps__pid_in_pids os_exited_nomem 42
     (log (E_GetExitCodeProcess 7 True) (w0\<lparr>handles := [7]\<rparr>))
     = Some (- 1, set_error NoMemory
          (log (E_malloc 4096 0) (log (E_GetExitCodeProcess 7 True) (w0\<lparr>handles := [7]\<rparr>))))
   \<and> ps__is_phandle_running os_exited_nomem 7 42 (w0\<lparr>handles := [7]\<rparr>)
     = Some (0, CloseHandle 7 (set_error NoMemory
          (log (E_malloc 4096 0) (log (E_GetExitCodeProcess 7 True) (w0\<lparr>handles := [7]\<rparr>)))))
   \<and> handles (CloseHandle 7 (set_error NoMemory
          (log (E_malloc 4096 0) (log (E_GetExitCodeProcess 7 True) (w0\<lparr>handles := [7]\<rparr>)))))
     = []"
proof -
  let ?w1 = "log (E_GetExitCodeProcess 7 True) (w0\<lparr>handles := [7]\<rparr>)"
  let ?w2 = "set_error NoMemory (log (E_malloc 4096 0) ?w1)"
  have g: "GetExitCodeProcess os_exited_nomem 7 (w0\<lparr>handles := [7]\<rparr>) = (Some 0, ?w1)"
    by (simp add: GetExitCodeProcess_def os_exited_nomem_def)
  have p: "ps__pid_in_pids os_exited_nomem 42 ?w1 = Some (- 1, ?w2)"
    by (simp add: ps__pid_in_pids_def ps__get_pids_def ps__get_pids_loop.simps
        ps__get_pids_round_def INT_MAX_def free_def malloc_def size_bits_def
        os_exited_nomem_def)
  have s: "(0 :: DWORD) \<noteq> STILL_ACTIVE"
    by (simp add: STILL_ACTIVE_def)
  from membership_error_is_not_running [of 7 os_exited_nomem "w0\<lparr>handles := [7]\<rparr>",
      OF _ g s p] p
  show ?thesis
    by (simp add: CloseHandle_def w0_def)
qed

subsection \<open>Trimming the working directory\<close>

lemma text_of_nth_last:
  assumes "text_of y \<noteq> []"
  shows "y ! (length (text_of y) - 1) = last (text_of y)"
proof -
  have "length (text_of y) - 1 < length (text_of y)" using assms by simp
  then have "text_of y ! (length (text_of y) - 1) = y ! (length (text_of y) - 1)"
    unfolding text_of_def by (rule takeWhile_nth)
  then show ?thesis using assms by (simp add: last_conv_nth)
qed

lemma cwd_trim_fixed:
  assumes "0 \<in> set y" "text_of y \<noteq> []" "last (text_of y) \<noteq> backslash"
  shows "cwd_trim y = Some y"
  using assms text_of_nth_last [OF assms(2)]
  by (simp add: cwd_trim_def wcslen_def text_of_def [symmetric])

lemma text_of_update:
  assumes "text_of x \<noteq> []"
  shows "text_of (x[length (text_of x) - 1 := 0]) = butlast (text_of x)"
proof -
  let ?t = "text_of x"
  let ?r = "dropWhile (\<lambda>c. c \<noteq> 0) x"
  have x: "x = ?t @ ?r" by (simp add: text_of_def)
  have i: "length ?t - 1 < length ?t" using assms by simp
  have t: "?t[length ?t - 1 := 0] = butlast ?t @ [0]"
    using assms by (metis append_butlast_last_id length_butlast list_update_length)
  have "x[length ?t - 1 := 0] = (?t @ ?r)[length ?t - 1 := 0]" using x by simp
  also have "\<dots> = butlast ?t @ 0 # ?r" using i t by (simp add: list_update_append1)
  finally have "text_of (x[length ?t - 1 := 0]) = takeWhile (\<lambda>c. c \<noteq> 0) (butlast ?t @ 0 # ?r)"
    by (simp add: text_of_def)
  also have "\<dots> = takeWhile (\<lambda>c. c \<noteq> 0) (butlast ?t)"
    by (rule takeWhile_tail) simp
  also have "\<dots> = butlast ?t"
    by (metis (mono_tags, lifting) in_set_butlastD set_takeWhileD takeWhile_eq_all_conv text_of_def)
  finally show ?thesis .
qed

lemma cwd_trim_text:
  assumes "cwd_trim x = Some y"
  shows "0 \<in> set y \<and> text_of x \<noteq> [] \<and>
         text_of y = (if last (text_of x) = backslash then butlast (text_of x) else text_of x)"
proof -
  from assms have z: "0 \<in> set x" and n: "text_of x \<noteq> []"
    by (auto simp: cwd_trim_def wcslen_def text_of_def split: if_splits)
  from assms z n have y: "y = (if last (text_of x) = backslash
                             then x[length (text_of x) - 1 := 0] else x)"
    using text_of_nth_last [OF n]
    by (auto simp: cwd_trim_def wcslen_def text_of_def [symmetric] split: if_splits)
  have "length (text_of x) \<le> length x"
    by (simp add: text_of_def length_takeWhile_le)
  with n have "length (text_of x) - 1 < length x"
    by (cases "text_of x") auto
  then have "0 \<in> set (x[length (text_of x) - 1 := 0])"
    by (rule set_update_memI)
  with y z text_of_update [OF n] show ?thesis using n by simp
qed

lemma cwd_trim_buffer:
  assumes "cwd_trim x = Some y"
  shows "y = (if last (text_of x) = backslash then x[length (text_of x) - 1 := 0] else x)"
proof -
  from assms have n: "text_of x \<noteq> []"
    by (auto simp: cwd_trim_def wcslen_def text_of_def split: if_splits)
  from assms text_of_nth_last [OF n] show ?thesis
    by (auto simp: cwd_trim_def wcslen_def text_of_def [symmetric] split: if_splits)
qed

lemma cwd_trim_fixed_text:
  assumes "cwd_trim y = Some y"
  shows "text_of y \<noteq> [] \<and> last (text_of y) \<noteq> backslash"
proof -
  from cwd_trim_text [OF assms] have n: "text_of y \<noteq> []"
    and t: "text_of y = (if last (text_of y) = backslash then butlast (text_of y) else text_of y)"
    by simp_all
  have "last (text_of y) \<noteq> backslash"
  proof
    assume "last (text_of y) = backslash"
    with t have "text_of y = butlast (text_of y)" by simp
    then have "length (text_of y) = length (butlast (text_of y))" by simp
    then have "length (text_of y) = length (text_of y) - 1" by (simp only: length_butlast)
    moreover from n have "length (text_of y) \<noteq> 0" by simp
    ultimately show False by arith
  qed
  with n show ?thesis by simp
qed

text \<open>
  C9, as the claim states it, fails: the trim removes one separator each time it is
  applied, so on a text that ends in two separators the second application removes the
  second one.
\<close>

theorem cwd_trim_twice_differs:
  "Option.bind (cwd_trim [0x43, 0x3A, backslash, backslash, 0]) cwd_trim
     \<noteq> cwd_trim [0x43, 0x3A, backslash, backslash, 0]"
  by (simp add: cwd_trim_def wcslen_def backslash_def)

text \<open>
  C9, amended. The trim of lines 780-782 is defined exactly on the buffers that hold a
  terminator and whose text (the characters before the first terminator) is not empty; on
  an empty text it reads the character before the buffer. Where it is defined it
  removes exactly one trailing separator: it writes a terminator over the last character
  of the text when that character is a separator and leaves the buffer as it is
  otherwise, so the text that results is the text without its last character in the
  first case and the same text in the second. Trimming again changes nothing,
  \<open>trim (trim x) = trim x\<close>, exactly when the text that results is not empty and does
  not end in a separator: that is, when the text of \<open>x\<close> is not empty, is not a lone
  separator and does not end in two separators.
\<close>

theorem cwd_trim_removes_one_separator:
  "(cwd_trim x \<noteq> None \<longleftrightarrow> 0 \<in> set x \<and> text_of x \<noteq> []) \<and>
   (\<forall>y. cwd_trim x = Some y \<longrightarrow>
      y = (if last (text_of x) = backslash then x[length (text_of x) - 1 := 0] else x) \<and>
      text_of y = (if last (text_of x) = backslash then butlast (text_of x) else text_of x) \<and>
      (Option.bind (cwd_trim x) cwd_trim = cwd_trim x
         \<longleftrightarrow> text_of y \<noteq> [] \<and> last (text_of y) \<noteq> backslash))"
proof (intro conjI allI impI)
  show "cwd_trim x \<noteq> None \<longleftrightarrow> 0 \<in> set x \<and> text_of x \<noteq> []"
    by (simp add: cwd_trim_def wcslen_def text_of_def)
next
  fix y assume a: "cwd_trim x = Some y"
  then show "y = (if last (text_of x) = backslash then x[length (text_of x) - 1 := 0] else x)"
    by (rule cwd_trim_buffer)
  from cwd_trim_text [OF a]
  show "text_of y = (if last (text_of x) = backslash then butlast (text_of x) else text_of x)"
    by simp
  from cwd_trim_text [OF a] have z: "0 \<in> set y" by simp
  show "Option.bind (cwd_trim x) cwd_trim = cwd_trim x
         \<longleftrightarrow> text_of y \<noteq> [] \<and> last (text_of y) \<noteq> backslash"
  proof
    assume "Option.bind (cwd_trim x) cwd_trim = cwd_trim x"
    with a have "cwd_trim y = Some y" by simp
    then show "text_of y \<noteq> [] \<and> last (text_of y) \<noteq> backslash"
      by (rule cwd_trim_fixed_text)
  next
    assume "text_of y \<noteq> [] \<and> last (text_of y) \<noteq> backslash"
    with z have "cwd_trim y = Some y" by (simp add: cwd_trim_fixed)
    with a show "Option.bind (cwd_trim x) cwd_trim = cwd_trim x" by simp
  qed
qed

theorem cwd_trim_removes_one_separator_witness:
  "cwd_trim [0x43, 0x3A, backslash, 0x61, backslash, 0]
     = Some [0x43, 0x3A, backslash, 0x61, 0, 0]
   \<and> text_of [0x43, 0x3A, backslash, 0x61, backslash, 0] = [0x43, 0x3A, backslash, 0x61, backslash]
   \<and> text_of [0x43, 0x3A, backslash, 0x61, 0, 0] = [0x43, 0x3A, backslash, 0x61]
   \<and> Option.bind (cwd_trim [0x43, 0x3A, backslash, 0x61, backslash, 0]) cwd_trim
       = cwd_trim [0x43, 0x3A, backslash, 0x61, backslash, 0]
   \<and> cwd_trim [0x43, 0x3A, backslash, backslash, 0] = Some [0x43, 0x3A, backslash, 0, 0]
   \<and> text_of [0x43, 0x3A, backslash, backslash, 0] = [0x43, 0x3A, backslash, backslash]
   \<and> text_of [0x43, 0x3A, backslash, 0, 0] = [0x43, 0x3A, backslash]
   \<and> Option.bind (cwd_trim [0x43, 0x3A, backslash, backslash, 0]) cwd_trim
       \<noteq> cwd_trim [0x43, 0x3A, backslash, backslash, 0]
   \<and> cwd_trim [backslash, 0] = Some [0, 0]
   \<and> text_of [0, 0] = []
   \<and> Option.bind (cwd_trim [backslash, 0]) cwd_trim \<noteq> cwd_trim [backslash, 0]
   \<and> cwd_trim [0] = None"
proof -
  let ?x1 = "[0x43, 0x3A, backslash, 0x61, backslash, 0]"
  let ?y1 = "[0x43, 0x3A, backslash, 0x61, 0, 0 :: WCHAR]"
  let ?x2 = "[0x43, 0x3A, backslash, backslash, 0]"
  let ?y2 = "[0x43, 0x3A, backslash, 0, 0 :: WCHAR]"
  let ?x3 = "[backslash, 0]"
  let ?y3 = "[0, 0 :: WCHAR]"
  have a1: "cwd_trim ?x1 = Some ?y1"
    by (simp add: cwd_trim_def wcslen_def backslash_def)
  have a2: "cwd_trim ?x2 = Some ?y2"
    by (simp add: cwd_trim_def wcslen_def backslash_def)
  have a3: "cwd_trim ?x3 = Some ?y3"
    by (simp add: cwd_trim_def wcslen_def backslash_def)
  have tx1: "text_of ?x1 = [0x43, 0x3A, backslash, 0x61, backslash]"
    and tx2: "text_of ?x2 = [0x43, 0x3A, backslash, backslash]"
    by (simp_all add: text_of_def backslash_def)
  have n: "0 \<notin> set [0 :: WCHAR] \<or> text_of [0 :: WCHAR] = []"
    by (simp add: text_of_def)
  note t1 = cwd_trim_removes_one_separator [of ?x1, THEN conjunct2, THEN spec, THEN mp, OF a1]
  note t2 = cwd_trim_removes_one_separator [of ?x2, THEN conjunct2, THEN spec, THEN mp, OF a2]
  note t3 = cwd_trim_removes_one_separator [of ?x3, THEN conjunct2, THEN spec, THEN mp, OF a3]
  have lx1: "last [0x43, 0x3A, backslash, 0x61, backslash] = backslash"
    and bx1: "butlast [0x43, 0x3A, backslash, 0x61, backslash] = [0x43, 0x3A, backslash, 0x61]"
    and lx2: "last [0x43, 0x3A, backslash, backslash] = backslash"
    and bx2: "butlast [0x43, 0x3A, backslash, backslash] = [0x43, 0x3A, backslash]"
    and lx3: "last [backslash] = backslash"
    and bx3: "butlast [backslash] = []"
    by simp_all
  from t1 [THEN conjunct2, THEN conjunct1] have ty1: "text_of ?y1 = [0x43, 0x3A, backslash, 0x61]"
    by (simp only: tx1 lx1 bx1 simp_thms if_True)
  have l1: "last [0x43, 0x3A, backslash, 0x61] \<noteq> backslash"
    by (simp add: backslash_def)
  have c1: "text_of ?y1 \<noteq> [] \<and> last (text_of ?y1) \<noteq> backslash"
    unfolding ty1 using l1 by simp
  from t1 [THEN conjunct2, THEN conjunct2, THEN iffD2, OF c1]
  have r1: "Option.bind (cwd_trim ?x1) cwd_trim = cwd_trim ?x1" .
  from t2 [THEN conjunct2, THEN conjunct1] have ty2: "text_of ?y2 = [0x43, 0x3A, backslash]"
    by (simp only: tx2 lx2 bx2 simp_thms if_True)
  have l2: "last [0x43, 0x3A, backslash] = backslash"
    by simp
  have c2: "\<not> (text_of ?y2 \<noteq> [] \<and> last (text_of ?y2) \<noteq> backslash)"
    unfolding ty2 using l2 by simp
  from t2 [THEN conjunct2, THEN conjunct2, THEN iffD1] c2
  have r2: "Option.bind (cwd_trim ?x2) cwd_trim \<noteq> cwd_trim ?x2"
    by blast
  have tx3: "text_of ?x3 = [backslash]"
    by (simp add: text_of_def backslash_def)
  from t3 [THEN conjunct2, THEN conjunct1] have ty3: "text_of ?y3 = []"
    by (simp only: tx3 lx3 bx3 simp_thms if_True)
  have c3: "\<not> (text_of ?y3 \<noteq> [] \<and> last (text_of ?y3) \<noteq> backslash)"
    unfolding ty3 by simp
  from t3 [THEN conjunct2, THEN conjunct2, THEN iffD1] c3
  have r3: "Option.bind (cwd_trim ?x3) cwd_trim \<noteq> cwd_trim ?x3"
    by blast
  from cwd_trim_removes_one_separator [of "[0]", THEN conjunct1] n
  have r4: "cwd_trim [0] = None"
    by blast
  from a1 tx1 ty1 r1 a2 tx2 ty2 r2 a3 ty3 r3 r4 show ?thesis
    by (intro conjI)
qed

subsection \<open>Ownership: what the PID functions leave behind\<close>

lemma free_owned:
  "owns p H w \<Longrightarrow> heap (free p w) = H \<and> handles (free p w) = handles w"
  by (auto simp: owns_def free_def)

lemma malloc_effect:
  "malloc os n w = (p, w') \<Longrightarrow>
     handles w' = handles w \<and>
     (if p = 0 then heap w' = heap w else heap w' = (p, n, Uninit) # heap w)"
  by (auto simp: malloc_def Let_def split: if_splits)

lemma EnumProcesses_effect:
  "EnumProcesses os p cb w = (r, w') \<Longrightarrow> heap w = (p, m, c) # H \<Longrightarrow>
     handles w' = handles w \<and>
     (case r of None \<Rightarrow> heap w' = heap w
      | Some ret \<Rightarrow> \<exists>pids. heap w' = (p, m, Dwords pids) # H \<and> ret = 4 * length pids)"
  by (auto simp: EnumProcesses_def Let_def split: option.splits)

lemma round_frame:
  assumes r: "ps__get_pids_round os sz p n w = (r, w')" and o: "owns p H w"
  shows "handles w' = handles w \<and>
         (case r of
            Inl q \<Rightarrow> q \<noteq> 0 \<and> (\<exists>m pids. heap w' = (q, m, Dwords pids) # H)
          | Inr (q, n') \<Rightarrow>
              (q = 0 \<and> heap w' = H \<and> n' = n) \<or>
              (q \<noteq> 0 \<and> (\<exists>m pids. heap w' = (q, m, Dwords pids) # H \<and> n' = length pids)))"
proof -
  define cb where "cb = nat (sz * 4 mod 2 ^ size_bits (WIN64 os)) mod 2 ^ 32"
  obtain q w1 where m: "malloc os cb (free p w) = (q, w1)"
    by (cases "malloc os cb (free p w)")
  from malloc_effect [OF m] free_owned [OF o]
  have w1: "handles w1 = handles w" "if q = 0 then heap w1 = H else heap w1 = (q, cb, Uninit) # H"
    by (auto split: if_splits)
  show ?thesis
  proof (cases "q = 0")
    case True
    with r m w1 show ?thesis
      by (auto simp add: ps__get_pids_round_def Let_def cb_def)
  next
    case False
    obtain e w2 where e: "EnumProcesses os q cb w1 = (e, w2)"
      by (cases "EnumProcesses os q cb w1")
    from False w1 have h1: "heap w1 = (q, cb, Uninit) # H" by simp
    note ee = EnumProcesses_effect [OF e h1]
    show ?thesis
    proof (cases e)
      case None
      with ee h1 have "owns q H w2" using False by (simp add: owns_def)
      from free_owned [OF this] r m e None False ee w1 show ?thesis
        by (auto simp add: ps__get_pids_round_def Let_def cb_def)
    next
      case (Some ret)
      with r m e False ee w1 show ?thesis
        by (auto simp add: ps__get_pids_round_def Let_def cb_def split: if_splits)
    qed
  qed
qed

lemma loop_frame:
  "ps__get_pids_loop os sz p n w = Some ((q, n'), w') \<Longrightarrow> owns p H w \<Longrightarrow>
     handles w' = handles w \<and>
     ((q = 0 \<and> heap w' = H \<and> n' = n) \<or>
      (q \<noteq> 0 \<and> (\<exists>m pids. heap w' = (q, m, Dwords pids) # H \<and> n' = length pids)))"
proof (induction os sz p n w rule: ps__get_pids_loop.induct)
  case (1 os sz p n w)
  from "1.prems"(1) have ok: "\<not> sz + 1024 > INT_MAX"
    by (subst (asm) ps__get_pids_loop.simps) (simp split: if_splits)
  obtain r w1 where r: "ps__get_pids_round os (sz + 1024) p n w = (r, w1)"
    by (cases "ps__get_pids_round os (sz + 1024) p n w")
  note fr = round_frame [OF r "1.prems"(2)]
  show ?case
  proof (cases r)
    case (Inl p')
    with "1.prems"(1) ok r
    have rec: "ps__get_pids_loop os (sz + 1024) p' n w1 = Some ((q, n'), w')"
      by (subst (asm) ps__get_pids_loop.simps) simp
    from fr Inl have "owns p' H w1" by (auto simp: owns_def)
    from "1.IH" [OF ok r [symmetric] Inl rec this] fr show ?thesis by simp
  next
    case (Inr x)
    with "1.prems"(1) ok r have "x = (q, n')" "w1 = w'"
      by (subst (asm) ps__get_pids_loop.simps, simp)+
    with fr Inr show ?thesis by simp
  qed
qed

lemma pid_in_pids_frame:
  assumes "ps__pid_in_pids os pid w = Some (r, w')"
  shows "handles w' = handles w \<and> heap w' = heap w \<and> (r = 1 \<or> r = 0 \<or> r = - 1)"
proof -
  from assms obtain q n' w1 where g: "ps__get_pids_loop os 0 0 0 w = Some ((q, n'), w1)"
    by (auto simp: ps__pid_in_pids_def ps__get_pids_def split: Option.bind_splits)
  have "owns 0 (heap w) w" by (simp add: owns_def)
  from loop_frame [OF g this]
  have fr: "handles w1 = handles w"
    "q = 0 \<and> heap w1 = heap w \<or>
     q \<noteq> 0 \<and> (\<exists>m pids. heap w1 = (q, m, Dwords pids) # heap w \<and> n' = length pids)"
    by auto
  show ?thesis
  proof (cases "q = 0")
    case True
    with assms g fr show ?thesis
      by (simp add: ps__pid_in_pids_def ps__get_pids_def)
  next
    case False
    with fr obtain m pids where h: "heap w1 = (q, m, Dwords pids) # heap w" "n' = length pids"
      by auto
    then have "owns q (heap w) w1" using False by (simp add: owns_def)
    from free_owned [OF this] assms g False h fr(1) show ?thesis
      by (auto simp: ps__pid_in_pids_def ps__get_pids_def heap_lookup_def split: if_splits)
  qed
qed

lemma assert_pid_exists_frame:
  "ps__assert_pid_exists os pid msg w = Some (a, w') \<Longrightarrow>
     handles w' = handles w \<and> heap w' = heap w"
  by (cases "ps__pid_in_pids os pid w")
     (auto simp: ps__assert_pid_exists_def split: if_splits dest!: pid_in_pids_frame)

lemma assert_pid_not_exists_frame:
  "ps__assert_pid_not_exists os pid msg w = Some (a, w') \<Longrightarrow>
     handles w' = handles w \<and> heap w' = heap w"
  by (cases "ps__pid_in_pids os pid w")
     (auto simp: ps__assert_pid_not_exists_def split: if_splits dest!: pid_in_pids_frame)

lemma CloseHandle_simps [simp]:
  "handles (CloseHandle h w) = remove1 h (handles w)" "heap (CloseHandle h w) = heap w"
  "trace (CloseHandle h w) = trace w @ [E_CloseHandle h]"
  by (simp_all add: CloseHandle_def)

lemma is_phandle_running_frame:
  assumes "ps__is_phandle_running os h pid w = Some (r, w')"
  shows "heap w' = heap w \<and>
         (if r = 1 then h \<noteq> 0 \<and> handles w' = handles w
          else handles w' = (if h = 0 then handles w else remove1 h (handles w)))"
proof (cases "h = 0")
  case True
  with assms show ?thesis
    by (auto simp: ps__is_phandle_running_def split: if_splits Option.bind_splits
             dest: assert_pid_not_exists_frame)
next
  case False
  obtain c w1 where g: "GetExitCodeProcess os h w = (c, w1)"
    by (cases "GetExitCodeProcess os h w")
  then have w1: "handles w1 = handles w" "heap w1 = heap w"
    by (auto simp: GetExitCodeProcess_def Let_def)
  show ?thesis
  proof (cases c)
    case None
    with assms False g w1 show ?thesis
      by (auto simp: ps__is_phandle_running_def split: if_splits Option.bind_splits
               dest!: assert_pid_not_exists_frame)
  next
    case (Some code)
    with assms False g w1 show ?thesis
      by (auto simp: ps__is_phandle_running_def split: if_splits Option.bind_splits
               dest!: assert_pid_exists_frame pid_in_pids_frame)
  qed
qed

lemma check_phandle_frame:
  assumes "ps__check_phandle os h pid w = Some (h', w')"
  shows "heap w' = heap w \<and> (h' = 0 \<or> h' = h) \<and>
         (if h' \<noteq> 0 then handles w' = handles w
          else handles w' = (if h = 0 then handles w else remove1 h (handles w)))"
  using assms
  by (auto simp: ps__check_phandle_def split: if_splits Option.bind_splits
           dest!: is_phandle_running_frame)

lemma handle_from_pid_frame:
  assumes "ps__handle_from_pid os pid w = Some (h, w')"
  shows "heap w' = heap w \<and>
         (if h = 0 then handles w' = handles w else handles w' = h # handles w)"
proof (cases "pid = 0")
  case True
  with assms show ?thesis
    by (auto simp: ps__handle_from_pid_def ps__handle_from_pid_waccess_def)
next
  case False
  let ?a = "or PROCESS_QUERY_INFORMATION PROCESS_VM_READ"
  obtain h1 w1 where o: "OpenProcess os ?a pid w = (h1, w1)"
    by (cases "OpenProcess os ?a pid w")
  then have w1: "heap w1 = heap w"
    "if h1 = 0 then handles w1 = handles w else handles w1 = h1 # handles w"
    by (auto simp: OpenProcess_def Let_def split: prod.splits if_splits)
  from assms False o have "ps__check_phandle os h1 pid w1 = Some (h, w')"
    by (simp add: ps__handle_from_pid_def ps__handle_from_pid_waccess_def)
  from check_phandle_frame [OF this] w1 show ?thesis
    by (auto split: if_splits)
qed

subsection \<open>The steps of \<open>ps__get_process_data\<close>\<close>

lemma step_failed_simps [simp]:
  "step_failed (E_GetProcAddress NtQueryInformationProcess ok) = False"
  "s \<noteq> NtQueryInformationProcess \<Longrightarrow> step_failed (E_GetProcAddress s ok) = (\<not> ok)"
  "step_failed (E_QueryWow64Information h ok) = (\<not> ok)"
  "step_failed (E_QueryBasicInformation h ok) = (\<not> ok)"
  "step_failed (E_Wow64QueryBasicInformation64 h ok) = (\<not> ok)"
  "step_failed (E_IsWow64Process h ok) = (\<not> ok)"
  "step_failed (E_ReadProcessMemory h t a ok) = (\<not> ok)"
  "step_failed (E_Wow64ReadVirtualMemory64 h t a ok) = (\<not> ok)"
  "step_failed (E_VirtualQueryEx h a ok) = (\<not> ok)"
  "step_failed (E_Wow64QueryVirtualMemory64 h a ok) = (\<not> ok)"
  "step_failed (E_calloc n p) = (p = 0)"
  "step_failed (E_CloseHandle h) = False"
  "step_failed (E_free p) = False"
  by (auto simp: step_failed_def)

lemma quiet_trans: "quiet w w1 es \<Longrightarrow> quiet w1 w2 es' \<Longrightarrow> quiet w w2 (es @ es')"
  by (simp add: quiet_def)

lemma resolve_ntqip_quiet:
  "resolve os NtQueryInformationProcess w = (ok, w') \<Longrightarrow>
     \<exists>es. quiet w w' es \<and> (\<forall>e \<in> set es. \<not> step_failed e)"
  by (auto simp: resolve_def quiet_def split: if_splits)

lemma gpd_mode_quiet:
  "gpd_mode os ntqip h w = Some (r, w') \<Longrightarrow>
     \<exists>es. quiet w w' es \<and> (r \<noteq> None \<longrightarrow> (\<forall>e \<in> set es. \<not> step_failed e))
                          \<and> (r = None \<longrightarrow> (\<exists>e \<in> set es. step_failed e))"
  by (auto simp: gpd_mode_def QueryWow64Information_def IsWow64Process_def quiet_def Let_def
           split: if_splits prod.splits option.splits)

lemma gpd_target32_quiet:
  "gpd_target32 os kind h ppeb32 w = (r, w') \<Longrightarrow>
     \<exists>es. quiet w w' es \<and> (r \<noteq> None \<longrightarrow> (\<forall>e \<in> set es. \<not> step_failed e))
                          \<and> (r = None \<longrightarrow> (\<exists>e \<in> set es. step_failed e))"
  by (auto simp: gpd_target32_def read_peb_def read_params_def read_event_def quiet_def Let_def
           split: prod.splits option.splits)

lemma gpd_native_quiet:
  "gpd_native os ntqip kind h w = Some (r, w') \<Longrightarrow>
     \<exists>es. quiet w w' es \<and> (r \<noteq> None \<longrightarrow> (\<forall>e \<in> set es. \<not> step_failed e))
                          \<and> (r = None \<longrightarrow> (\<exists>e \<in> set es. step_failed e))"
  by (auto simp: gpd_native_def QueryBasicInformation_def read_peb_def read_params_def
                 read_event_def quiet_def Let_def
           split: if_splits prod.splits option.splits)

lemma gpd_target64_quiet:
  "gpd_target64 os kind h w = (r, w') \<Longrightarrow>
     \<exists>es. quiet w w' es \<and> (r \<noteq> None \<longrightarrow> (\<forall>e \<in> set es. \<not> step_failed e))
                          \<and> (r = None \<longrightarrow> (\<exists>e \<in> set es. step_failed e))"
  by (auto simp: gpd_target64_def resolve_def Wow64QueryBasicInformation64_def read_peb_def
                 read_params_def read_event_def quiet_def Let_def
           split: if_splits prod.splits option.splits bool.splits)

lemma gpd_size_quiet:
  "gpd_size os mode kind h src sz w = (r, w') \<Longrightarrow>
     \<exists>es. quiet w w' es \<and> (r \<noteq> None \<longrightarrow> (\<forall>e \<in> set es. \<not> step_failed e))
                          \<and> (r = None \<longrightarrow> (\<exists>e \<in> set es. step_failed e))"
  by (auto simp: gpd_size_def ps__get_process_region_size_def ps__get_process_region_size64_def
                 resolve_def VirtualQueryEx_def Wow64QueryVirtualMemory64_def quiet_def Let_def
           split: if_splits prod.splits option.splits bool.splits)

lemma gpd_error_simps [simp]:
  "h \<noteq> 0 \<Longrightarrow> handles (gpd_error h 0 w) = remove1 h (handles w)"
  "heap (gpd_error h 0 w) = heap w"
  "h \<noteq> 0 \<Longrightarrow> trace (gpd_error h 0 w) = trace w @ [E_CloseHandle h]"
  by (simp_all add: gpd_error_def Let_def)

text \<open>
  The last step: on success the buffer is the newest block of the heap, \<open>size + 2\<close> bytes
  long, holding the bytes the system delivered followed by two zero bytes.
\<close>

lemma gpd_copy_outcome:
  assumes c: "gpd_copy os mode h src sz pdata psize w = Some ((r, pdata', psize'), w')"
    and h: "h \<noteq> 0"
  shows "handles w' = remove1 h (handles w) \<and>
         ((r = - 1 \<and> pdata' = pdata \<and> psize' = psize \<and> heap w' = heap w \<and>
           (\<exists>es. trace w' = trace w @ es \<and> (\<exists>e \<in> set es. step_failed e)
                  \<and> E_CloseHandle h \<in> set es)) \<or>
          (r = 0 \<and> pdata' \<noteq> 0 \<and> psize' = sz \<and>
           (\<exists>bs. length bs = sz \<and> os_ReadData os (Suc (now w)) h src sz = Some bs \<and>
                  heap w' = (pdata', sz + 2, Bytes (bs @ [0, 0])) # heap w) \<and>
           trace w' = trace w @ [E_calloc (sz + 2) pdata',
                                 read_event (mode = TargetWiderThanCaller) h (Data sz) src True,
                                 E_CloseHandle h]))"
proof -
  let ?n = "(sz + 2) mod 2 ^ size_bits (WIN64 os)"
  obtain buffer w1 where a: "calloc os ?n w = (buffer, w1)"
    by (cases "calloc os ?n w")
  show ?thesis
  proof (cases "buffer = 0")
    case True
    with a have "w1 = log (E_calloc ?n 0) w"
      by (auto simp: calloc_def Let_def split: if_splits)
    with c a True h show ?thesis
      by (auto simp: gpd_copy_def gpd_error_def Let_def)
  next
    case False
    with a have w1: "w1 = log (E_calloc ?n buffer)
                       (w\<lparr>heap := (buffer, ?n, Bytes (replicate ?n 0)) # heap w, brk := buffer\<rparr>)"
      by (auto simp: calloc_def Let_def split: if_splits)
    then have n1: "now w1 = Suc (now w)" by (simp add: now_def)
    from c a False obtain ok w2 where
      rd: "read_data os (mode = TargetWiderThanCaller) h src buffer sz w1 = Some (ok, w2)"
      by (auto simp: gpd_copy_def split: Option.bind_splits)
    show ?thesis
    proof (cases ok)
      case False
      with rd w1 have "w2 = log (read_event (mode = TargetWiderThanCaller) h (Data sz) src False) w1"
        by (auto simp: read_data_def split: option.splits if_splits prod.splits contents.splits)
      with c a rd False \<open>buffer \<noteq> 0\<close> h w1 show ?thesis
        by (auto simp: gpd_copy_def gpd_error_def free_def Let_def read_event_def)
    next
      case True
      with rd w1 n1 obtain bs where
        bs: "os_ReadData os (Suc (now w)) h src sz = Some bs" "length bs = sz" "sz \<le> ?n" and
        w2: "w2 = log (read_event (mode = TargetWiderThanCaller) h (Data sz) src True)
                    (w1\<lparr>heap := (buffer, ?n, Bytes (bs @ drop sz (replicate ?n 0))) # heap w\<rparr>)"
        by (auto simp: read_data_def heap_lookup_def
                 split: option.splits if_splits prod.splits contents.splits)
      have n: "?n = sz + 2"
      proof (rule ccontr)
        assume "?n \<noteq> sz + 2"
        then have "\<not> sz + 2 < 2 ^ size_bits (WIN64 os)" by auto
        then have "?n \<le> sz + 2 - 2 ^ size_bits (WIN64 os)"
          by (metis le_mod_geq mod_less_eq_dividend not_less)
        moreover have "(2::nat) < 2 ^ size_bits (WIN64 os)"
          by (simp add: size_bits_def)
        ultimately show False using bs(3) \<open>\<not> sz + 2 < 2 ^ size_bits (WIN64 os)\<close> by linarith
      qed
      have "replicate (sz + 2) (0::byte) = replicate sz 0 @ replicate 2 0"
        by (simp only: replicate_add)
      then have z: "drop sz (replicate (sz + 2) (0::byte)) = [0, 0]"
        by (simp add: numeral_2_eq_2)
      from w2 have w2': "w2 = log (read_event (mode = TargetWiderThanCaller) h (Data sz) src True)
                    (w1\<lparr>heap := (buffer, sz + 2, Bytes (bs @ [0, 0])) # heap w\<rparr>)"
        by (simp only: n z)
      from w1 [unfolded n] have w1': "trace w1 = trace w @ [E_calloc (sz + 2) buffer]"
        "handles w1 = handles w"
        by simp_all
      from c a rd True \<open>buffer \<noteq> 0\<close>
      have res: "r = 0" "pdata' = buffer" "psize' = sz" "w' = CloseHandle h w2"
        by (auto simp: gpd_copy_def)
      from res w2' w1' bs \<open>buffer \<noteq> 0\<close> show ?thesis
        by simp
    qed
  qed
qed

text \<open>The block that runs for a mode, lines 504-671.\<close>

lemma gpd_block_quiet:
  assumes "(case mode of
              TargetNarrowerThanCaller \<Rightarrow> Some (gpd_target32 os kind h ppeb32 w)
            | TargetWiderThanCaller \<Rightarrow> Some (gpd_target64 os kind h w)
            | Native \<Rightarrow> gpd_native os ntqip kind h w) = Some (d, w')"
  shows "\<exists>es. quiet w w' es \<and> (d \<noteq> None \<longrightarrow> (\<forall>e \<in> set es. \<not> step_failed e))
                             \<and> (d = None \<longrightarrow> (\<exists>e \<in> set es. step_failed e))"
proof (cases mode)
  case Native
  with assms have "gpd_native os ntqip kind h w = Some (d, w')" by simp
  from gpd_native_quiet [OF this] show ?thesis .
next
  case TargetNarrowerThanCaller
  with assms have "gpd_target32 os kind h ppeb32 w = (d, w')" by simp
  from gpd_target32_quiet [OF this] show ?thesis .
next
  case TargetWiderThanCaller
  with assms have "gpd_target64 os kind h w = (d, w')" by simp
  from gpd_target64_quiet [OF this] show ?thesis .
qed

text \<open>
  Every run of \<open>ps__get_process_data\<close> that returns: what it returns and what it leaves
  behind, with \<open>es\<close> the calls made once the handle is open.
\<close>

lemma gpd_run_null:
  assumes g: "ps__get_process_data os pid kind pdata psize w = Some ((r, pdata', psize'), w')"
    and hf: "ps__handle_from_pid os pid w = Some (0, w1)"
  shows "r = - 1 \<and> pdata' = pdata \<and> psize' = psize \<and> w' = w1"
  using g hf by (simp add: ps__get_process_data_def)

lemma gpd_run_handle:
  assumes g: "ps__get_process_data os pid kind pdata psize w = Some ((r, pdata', psize'), w')"
  shows "\<exists>h w1. ps__handle_from_pid os pid w = Some (h, w1)"
  using g by (auto simp: ps__get_process_data_def split: Option.bind_splits)

lemma gpd_run:
  assumes g: "ps__get_process_data os pid kind pdata psize w = Some ((r, pdata', psize'), w')"
    and hf: "ps__handle_from_pid os pid w = Some (h, w1)"
    and h: "h \<noteq> 0"
  shows "handles w' = handles w \<and>
         (\<exists>es. trace w' = trace w1 @ es \<and> E_CloseHandle h \<in> set es \<and>
            ((r = - 1 \<and> pdata' = pdata \<and> psize' = psize \<and> heap w' = heap w \<and>
              (\<exists>e \<in> set es. step_failed e)) \<or>
             (r = 0 \<and> pdata' \<noteq> 0 \<and> (\<forall>e \<in> set es. \<not> step_failed e) \<and>
              (\<exists>bs pre src wow t.
                 length bs = psize' \<and> os_ReadData os t h src psize' = Some bs \<and>
                 heap w' = (pdata', psize' + 2, Bytes (bs @ [0, 0])) # heap w \<and>
                 es = pre @ [E_calloc (psize' + 2) pdata',
                             read_event wow h (Data psize') src True,
                             E_CloseHandle h]) \<and>
              (\<exists>mode src sz w4 w5.
                 gpd_size os mode kind h src sz w4 = (Some psize', w5) \<and>
                 gpd_copy os mode h src psize' pdata psize w5
                   = Some ((0, pdata', psize'), w')))))"
proof -
  from handle_from_pid_frame [OF hf] h
  have f1: "heap w1 = heap w" "handles w1 = h # handles w" by simp_all
  obtain ntqip w2 where rs: "resolve os NtQueryInformationProcess w1 = (ntqip, w2)"
    by (cases "resolve os NtQueryInformationProcess w1")
  from resolve_ntqip_quiet [OF rs] obtain es2 where
    q2: "quiet w1 w2 es2" "\<forall>e \<in> set es2. \<not> step_failed e" by blast
  from g hf h rs obtain m w3 where gm: "gpd_mode os ntqip h w2 = Some (m, w3)"
    by (auto simp: ps__get_process_data_def split: Option.bind_splits)
  from gpd_mode_quiet [OF gm] obtain es3 where
    q3: "quiet w2 w3 es3" "m \<noteq> None \<longrightarrow> (\<forall>e \<in> set es3. \<not> step_failed e)"
      "m = None \<longrightarrow> (\<exists>e \<in> set es3. step_failed e)" by blast
  from quiet_trans [OF q2(1) q3(1)] have q13: "quiet w1 w3 (es2 @ es3)" .
  show ?thesis
  proof (cases m)
    case None
    with g hf h rs gm have "r = - 1" "pdata' = pdata" "psize' = psize"
      "w' = gpd_error h 0 w3"
      by (simp_all add: ps__get_process_data_def)
    with h f1 q13 q3(3) None show ?thesis
      by (auto simp: quiet_def)
  next
    case (Some mp)
    note m = this
    obtain mode ppeb32 where mp: "mp = (mode, ppeb32)" by (cases mp)
    let ?block = "case mode of
            TargetNarrowerThanCaller \<Rightarrow> Some (gpd_target32 os kind h ppeb32 w3)
          | TargetWiderThanCaller \<Rightarrow> Some (gpd_target64 os kind h w3)
          | Native \<Rightarrow> gpd_native os ntqip kind h w3"
    from g hf h rs gm m mp obtain d w4 where bl: "?block = Some (d, w4)"
      by (auto simp: ps__get_process_data_def split: Option.bind_splits)
    from gpd_block_quiet [OF bl] obtain es4 where
      q4: "quiet w3 w4 es4" "d \<noteq> None \<longrightarrow> (\<forall>e \<in> set es4. \<not> step_failed e)"
        "d = None \<longrightarrow> (\<exists>e \<in> set es4. step_failed e)" by blast
    from quiet_trans [OF q13 q4(1)] have q14: "quiet w1 w4 (es2 @ es3 @ es4)" by simp
    show ?thesis
    proof (cases d)
      case None
      with g hf h rs gm m mp bl have "r = - 1" "pdata' = pdata" "psize' = psize"
        "w' = gpd_error h 0 w4"
        by (simp_all add: ps__get_process_data_def)
      with h f1 q14 q4(3) None show ?thesis
        by (auto simp: quiet_def)
    next
      case (Some ss)
      note d = this
      obtain src sz where ss: "ss = (src, sz)" by (cases ss)
      obtain l w5 where gs: "gpd_size os mode kind h src sz w4 = (l, w5)"
        by (cases "gpd_size os mode kind h src sz w4")
      from gpd_size_quiet [OF gs] obtain es5 where
        q5: "quiet w4 w5 es5" "l \<noteq> None \<longrightarrow> (\<forall>e \<in> set es5. \<not> step_failed e)"
          "l = None \<longrightarrow> (\<exists>e \<in> set es5. step_failed e)" by blast
      from quiet_trans [OF q14 q5(1)] have q15: "quiet w1 w5 (es2 @ es3 @ es4 @ es5)" by simp
      show ?thesis
      proof (cases l)
        case None
        with g hf h rs gm m mp bl d ss gs
        have "r = - 1" "pdata' = pdata" "psize' = psize" "w' = gpd_error h 0 w5"
          by (simp_all add: ps__get_process_data_def)
        with h f1 q15 q5(3) None show ?thesis
          by (auto simp: quiet_def)
      next
        case (Some L)
        with g hf h rs gm m mp bl d ss gs
        have cp: "gpd_copy os mode h src L pdata psize w5 = Some ((r, pdata', psize'), w')"
          by (simp add: ps__get_process_data_def)
        let ?pre = "es2 @ es3 @ es4 @ es5"
        from q2(2) q3(2) q4(2) q5(2) m d Some
        have ok: "\<forall>e \<in> set ?pre. \<not> step_failed e" by auto
        from q15 f1 have w5: "handles w5 = h # handles w" "heap w5 = heap w"
          "trace w5 = trace w1 @ ?pre"
          by (simp_all add: quiet_def)
        from gpd_copy_outcome [OF cp h] w5
        have hw: "handles w' = handles w" by simp
        from gpd_copy_outcome [OF cp h]
        consider
          (err) es6 where "r = - 1" "pdata' = pdata" "psize' = psize" "heap w' = heap w5"
            "trace w' = trace w5 @ es6" "\<exists>e \<in> set es6. step_failed e"
            "E_CloseHandle h \<in> set es6"
        | (ok) bs where "r = 0" "pdata' \<noteq> 0" "psize' = L" "length bs = L"
            "os_ReadData os (Suc (now w5)) h src L = Some bs"
            "heap w' = (pdata', L + 2, Bytes (bs @ [0, 0])) # heap w5"
            "trace w' = trace w5 @ [E_calloc (L + 2) pdata',
               read_event (mode = TargetWiderThanCaller) h (Data L) src True,
               E_CloseHandle h]"
          by blast
        then show ?thesis
        proof cases
          case err
          with w5 have "trace w' = trace w1 @ (?pre @ es6) \<and>
              E_CloseHandle h \<in> set (?pre @ es6) \<and>
              r = - 1 \<and> pdata' = pdata \<and> psize' = psize \<and> heap w' = heap w \<and>
              (\<exists>e \<in> set (?pre @ es6). step_failed e)"
            by auto
          with hw show ?thesis by blast
        next
          case ok
          let ?tl = "[E_calloc (psize' + 2) pdata',
               read_event (mode = TargetWiderThanCaller) h (Data psize') src True,
               E_CloseHandle h]"
          from ok w5 \<open>\<forall>e \<in> set ?pre. \<not> step_failed e\<close>
          have "trace w' = trace w1 @ (?pre @ ?tl) \<and>
              E_CloseHandle h \<in> set (?pre @ ?tl) \<and>
              r = 0 \<and> pdata' \<noteq> 0 \<and> (\<forall>e \<in> set (?pre @ ?tl). \<not> step_failed e) \<and>
              length bs = psize' \<and> os_ReadData os (Suc (now w5)) h src psize' = Some bs \<and>
              heap w' = (pdata', psize' + 2, Bytes (bs @ [0, 0])) # heap w \<and>
              ?pre @ ?tl = ?pre @ ?tl"
            by (auto simp: read_event_def)
          moreover from gs Some cp ok
          have "gpd_size os mode kind h src sz w4 = (Some psize', w5) \<and>
                gpd_copy os mode h src psize' pdata psize w5 = Some ((0, pdata', psize'), w')"
            by simp
          ultimately show ?thesis using hw by blast
        qed
      qed
    qed
  qed
qed

lemmas run_defs =
  ps__get_process_data_def ps__handle_from_pid_def ps__handle_from_pid_waccess_def
  ps__check_phandle_def ps__is_phandle_running_def ps__assert_pid_exists_def
  OpenProcess_def GetExitCodeProcess_def resolve_def gpd_mode_def QueryWow64Information_def
  gpd_native_def QueryBasicInformation_def read_peb_def read_params_def read_event_def
  select_field_def gpd_size_def gpd_copy_def calloc_def read_data_def heap_lookup_def
  gpd_error_def CloseHandle_def free_def log_def set_error_def now_def size_bits_def
  STILL_ACTIVE_def PROCESS_QUERY_INFORMATION_def PROCESS_VM_READ_def Let_def

lemma replicate_two: "replicate 2 x = [x, x]"
  by (simp add: numeral_2_eq_2)

lemma demo_open:
  "ps__handle_from_pid os_demo 42 w0 =
     Some (7, w_demo_open)"
  by (simp add: run_defs os_demo_def w0_def w_demo_open_def)

lemma nocopy_open:
  "ps__handle_from_pid os_nocopy 42 w0 =
     Some (7, w_demo_open)"
  by (simp add: run_defs os_demo_def os_nocopy_def w0_def w_demo_open_def)

lemma nocopy_cwd:
  "ps__get_process_data os_nocopy 42 KIND_CWD 0 0 w0 = Some ((- 1, 0, 0), w_nocopy_cwd)"
  by (simp add: run_defs os_demo_def os_nocopy_def w0_def w_nocopy_cwd_def)

lemma demo_cwd:
  "ps__get_process_data os_demo 42 KIND_CWD 0 0 w0 = Some ((0, 1, 6), w_demo_cwd)"
  by (simp add: run_defs os_demo_def w0_def w_demo_cwd_def replicate_two)

text \<open>
  C2. Whenever \<open>ps__get_process_data\<close> returns, it returns 0 or -1, and the handle it
  opened is closed again. When it returns -1 the heap is the one before the call (a
  buffer allocated on the way is freed) and \<open>*pdata\<close> and \<open>*psize\<close> hold what they held
  before; so the outputs are written only when 0 is returned. It returns -1 whenever the
  process could not be opened (NULL handle) or any call made once the handle is open
  failed: a query, a lookup of a WoW64 primitive, a read of the PEB or of the parameters,
  the region probe, the allocation, the final copy.
\<close>

theorem get_process_data_fails_cleanly:
  assumes "ps__get_process_data os pid kind pdata psize w = Some ((r, pdata', psize'), w')"
    and "ps__handle_from_pid os pid w = Some (h, w1)"
  shows "(r = 0 \<or> r = - 1) \<and> handles w' = handles w \<and>
         (r = - 1 \<longrightarrow> heap w' = heap w \<and> pdata' = pdata \<and> psize' = psize) \<and>
         ((pdata', psize') \<noteq> (pdata, psize) \<longrightarrow> r = 0) \<and>
         (h = 0 \<or> (\<exists>e \<in> set (drop (length (trace w1)) (trace w')). step_failed e)
            \<longrightarrow> r = - 1) \<and>
         (h \<noteq> 0 \<longrightarrow> E_CloseHandle h \<in> set (drop (length (trace w1)) (trace w')))"
proof (cases "h = 0")
  case True
  with gpd_run_null [OF assms(1)] assms(2) handle_from_pid_frame [OF assms(2)]
  show ?thesis by auto
next
  case False
  from gpd_run [OF assms False] obtain es where
    "handles w' = handles w" "trace w' = trace w1 @ es" "E_CloseHandle h \<in> set es"
    "(r = - 1 \<and> pdata' = pdata \<and> psize' = psize \<and> heap w' = heap w \<and>
        (\<exists>e \<in> set es. step_failed e)) \<or>
     (r = 0 \<and> (\<forall>e \<in> set es. \<not> step_failed e))"
    by blast
  with False show ?thesis by auto
qed

theorem get_process_data_fails_cleanly_witness:
  "ps__get_process_data os_nocopy 42 KIND_CWD 0 0 w0 = Some ((- 1, 0, 0), w_nocopy_cwd)
   \<and> ps__handle_from_pid os_nocopy 42 w0 = Some (7, w_demo_open)
   \<and> step_failed (E_ReadProcessMemory 7 (Data 6) 0x30000 False)
   \<and> E_ReadProcessMemory 7 (Data 6) 0x30000 False
         \<in> set (drop (length (trace w_demo_open)) (trace w_nocopy_cwd))
   \<and> handles w_nocopy_cwd = handles w0 \<and> heap w_nocopy_cwd = heap w0
   \<and> E_CloseHandle 7 \<in> set (drop (length (trace w_demo_open)) (trace w_nocopy_cwd))"
  using get_process_data_fails_cleanly [OF nocopy_cwd nocopy_open] nocopy_cwd nocopy_open
  by (simp add: w_nocopy_cwd_def w_demo_open_def w0_def)





subsection \<open>The length of the environment\<close>








subsection \<open>The working directory\<close>

lemma wchar_zero [simp]: "wchar 0 0 = 0"
  by (simp add: wchar_def)

lemma wchars_terminated:
  "even (length bs) \<Longrightarrow> wchars (bs @ [0, 0]) = wchars bs @ [0]"
  by (induction bs rule: wchars.induct) simp_all

lemma text_of_terminated: "text_of (cs @ [0]) = text_of cs"
  unfolding text_of_def by (rule takeWhile_tail) simp

lemma cwd_trim_defined:
  assumes "0 \<in> set x" "text_of x \<noteq> []"
  shows "\<exists>y. cwd_trim x = Some y"
  using assms by (simp add: cwd_trim_def wcslen_def text_of_def)

lemma gpd_success_heap:
  assumes "ps__get_process_data os pid kind pdata psize w = Some ((0, pdata', psize'), w')"
  shows "\<exists>bs t h src. length bs = psize' \<and> os_ReadData os t h src psize' = Some bs \<and>
           heap w' = (pdata', psize' + 2, Bytes (bs @ [0, 0])) # heap w"
proof -
  from gpd_run_handle [OF assms] obtain h w1 where
    hf: "ps__handle_from_pid os pid w = Some (h, w1)" by blast
  have h: "h \<noteq> 0"
  proof
    assume "h = 0"
    with gpd_run_null [OF assms] hf show False by simp
  qed
  from gpd_run [OF assms hf h] show ?thesis by auto
qed

text \<open>
  C8, as the claim states it, fails: \<open>ps__get_cwd\<close> does trim. The target's working
  directory is \<open>C:\\<close>; the six bytes copied end in the separator; the text returned is
  \<open>C:\<close>.
\<close>

theorem get_cwd_drops_the_separator:
  "os_ReadData os_demo 8 7 0x30000 6 = Some [0x43, 0, 0x3A, 0, 0x5C, 0]
   \<and> wchars [0x43, 0, 0x3A, 0, 0x5C, 0] = [0x43, 0x3A, backslash]
   \<and> map_option fst (ps__get_cwd os_demo 42 w0) = Some (Some [0x43, 0x3A])
   \<and> backslash \<notin> set [0x43, 0x3A]"
proof -
  have "os_ReadData os_demo 8 7 0x30000 6 = Some [0x43, 0, 0x3A, 0, 0x5C, 0]"
    by (simp add: os_demo_def)
  moreover have "map_option fst (ps__get_cwd os_demo 42 w0) = Some (Some [0x43, 0x3A])"
    by (simp add: ps__get_cwd_def demo_cwd w_demo_cwd_def heap_lookup_def cwd_trim_def
        wcslen_def text_of_def wchar_def backslash_def)
  ultimately show ?thesis
    by (simp add: wchar_def backslash_def)
qed

text \<open>
  C8, amended. \<open>ps__get_process_data\<close> hands the working directory over as it was copied:
  the buffer is the bytes delivered by the system followed by two zero bytes, a trailing
  separator included. \<open>ps__get_cwd\<close> then trims it: when the copy has an even number of
  bytes and its text (up to the first terminator) is not empty, the text returned is that
  text without its last character if this is a path separator, and that text itself
  otherwise.
\<close>

theorem get_cwd_trims_one_separator:
  assumes "ps__get_process_data os pid KIND_CWD 0 0 w = Some ((0, data, n), w1)"
  shows "\<exists>bs t h src.
           length bs = n \<and> os_ReadData os t h src n = Some bs \<and>
           heap w1 = (data, n + 2, Bytes (bs @ [0, 0])) # heap w \<and>
           (even n \<and> text_of (wchars bs) \<noteq> [] \<longrightarrow>
              map_option fst (ps__get_cwd os pid w)
                = Some (Some (if last (text_of (wchars bs)) = backslash
                              then butlast (text_of (wchars bs))
                              else text_of (wchars bs))))"
proof -
  from gpd_success_heap [OF assms] obtain bs t h src where
    bs: "length bs = n" "os_ReadData os t h src n = Some bs"
      "heap w1 = (data, n + 2, Bytes (bs @ [0, 0])) # heap w"
    by blast
  have "map_option fst (ps__get_cwd os pid w)
          = Some (Some (if last (text_of (wchars bs)) = backslash
                        then butlast (text_of (wchars bs))
                        else text_of (wchars bs)))"
    if e: "even n" and ne: "text_of (wchars bs) \<noteq> []"
  proof -
    let ?x = "wchars (bs @ [0, 0])"
    from e bs(1) have x: "?x = wchars bs @ [0]" by (simp add: wchars_terminated)
    then have tx: "text_of ?x = text_of (wchars bs)" by (simp add: text_of_terminated)
    from x have "0 \<in> set ?x" by simp
    with tx ne obtain y where y: "cwd_trim ?x = Some y"
      using cwd_trim_defined [of ?x] by auto
    from cwd_trim_text [OF y] tx
    have ty: "text_of y = (if last (text_of (wchars bs)) = backslash
                           then butlast (text_of (wchars bs)) else text_of (wchars bs))"
      by simp
    from assms bs(3) y have "map_option fst (ps__get_cwd os pid w) = Some (Some (text_of y))"
      by (simp add: ps__get_cwd_def heap_lookup_def)
    with ty show ?thesis by simp
  qed
  with bs show ?thesis by blast
qed

theorem get_cwd_trims_one_separator_witness:
  "ps__get_process_data os_demo 42 KIND_CWD 0 0 w0 = Some ((0, 1, 6), w_demo_cwd)
   \<and> heap w_demo_cwd = [(1, 6 + 2, Bytes ([0x43, 0, 0x3A, 0, 0x5C, 0] @ [0, 0]))]
   \<and> even (6::nat)
   \<and> text_of (wchars [0x43, 0, 0x3A, 0, 0x5C, 0]) = [0x43, 0x3A, backslash]
   \<and> map_option fst (ps__get_cwd os_demo 42 w0) = Some (Some [0x43, 0x3A])"
proof -
  from get_cwd_trims_one_separator [OF demo_cwd] obtain bs where
    h: "heap w_demo_cwd = (1, 6 + 2, Bytes (bs @ [0, 0])) # heap w0" "length bs = 6" and
    r: "even (6::nat) \<and> text_of (wchars bs) \<noteq> [] \<longrightarrow>
          map_option fst (ps__get_cwd os_demo 42 w0)
            = Some (Some (if last (text_of (wchars bs)) = backslash
                          then butlast (text_of (wchars bs))
                          else text_of (wchars bs)))"
    by blast
  from h have "bs @ [0, 0] = [0x43, 0, 0x3A, 0, 0x5C, 0] @ [0, 0]"
    by (simp add: w_demo_cwd_def)
  then have bs: "bs = [0x43, 0, 0x3A, 0, 0x5C, 0]"
    by (simp only: append_same_eq)
  have t: "text_of (wchars [0x43, 0, 0x3A, 0, 0x5C, 0]) = [0x43, 0x3A, backslash]"
    by (simp add: text_of_def wchar_def backslash_def)
  from r bs t demo_cwd show ?thesis
    by (simp add: w_demo_cwd_def w0_def)
qed

subsection \<open>The PID enumeration loop\<close>

lemma enum_calls_append: "enum_calls (es @ es') = enum_calls es @ enum_calls es'"
  by (induction es rule: enum_calls.induct) simp_all

lemma byte_size:
  assumes "c < 2 ^ 30"
  shows "nat ((int c * 4) mod 2 ^ size_bits win64) = 4 * c"
    and "(4 * c) mod 2 ^ 32 = 4 * c"
proof -
  from assms have lt: "4 * c < 2 ^ 32" by simp
  moreover have "(2::nat) ^ 32 \<le> 2 ^ size_bits win64"
    by (simp add: size_bits_def)
  ultimately have "4 * c < 2 ^ size_bits win64" by (rule less_le_trans)
  then have "int (4 * c) mod 2 ^ size_bits win64 = int (4 * c)"
    by (metis mod_less of_nat_mod of_nat_numeral of_nat_power)
  then show "nat ((int c * 4) mod 2 ^ size_bits win64) = 4 * c"
    by (simp add: mult.commute)
  from lt show "(4 * c) mod 2 ^ 32 = 4 * c" by simp
qed

text \<open>
  One round against a system that always has memory and always enumerates: the array of
  \<open>c\<close> slots is filled with the first \<open>c\<close> live identifiers; the round asks for another
  one exactly when all \<open>c\<close> slots were used.
\<close>

lemma round_converges:
  assumes mem: "\<forall>t n. os_malloc os t n"
    and enum: "\<forall>t. \<exists>live. os_EnumProcesses os t = Some live \<and> length live \<le> N"
    and c: "0 < c" "c < 2 ^ 30"
    and o: "owns p H w"
  shows "\<exists>q w' live es.
           ps__get_pids_round os (int c) p n0 w
             = ((if c \<le> length live then Inl q else Inr (q, length live)), w') \<and>
           q \<noteq> 0 \<and> length live \<le> N \<and>
           os_EnumProcesses os (length (trace w') - 1) = Some live \<and>
           heap w' = (q, 4 * c, Dwords (take c live)) # H \<and>
           trace w' = trace w @ es @ [E_EnumProcesses (4 * c) (Some (4 * min c (length live)))] \<and>
           enum_calls es = []"
proof -
  let ?w1 = "free p w"
  let ?q = "Suc (brk ?w1)"
  let ?w2 = "log (E_malloc (4 * c) ?q) (?w1\<lparr>heap := (?q, 4 * c, Uninit) # heap ?w1, brk := ?q\<rparr>)"
  from mem have m: "malloc os (4 * c) ?w1 = (?q, ?w2)"
    by (simp add: malloc_def Let_def)
  from enum obtain live where
    live: "os_EnumProcesses os (now ?w2) = Some live" "length live \<le> N" by blast
  let ?pids = "take c live"
  let ?ret = "4 * length ?pids"
  let ?w3 = "log (E_EnumProcesses (4 * c) (Some ?ret))
               (?w2\<lparr>heap := heap_store ?q (Dwords ?pids) (heap ?w2)\<rparr>)"
  from live have e: "EnumProcesses os ?q (4 * c) ?w2 = (Some ?ret, ?w3)"
    by (simp add: EnumProcesses_def Let_def)
  from free_owned [OF o] have h1: "heap ?w1 = H" by simp
  have t1: "\<exists>es. trace ?w1 = trace w @ es \<and> enum_calls es = []"
    by (cases "p = 0") (simp_all add: free_def)
  then obtain es1 where es1: "trace ?w1 = trace w @ es1" "enum_calls es1 = []" by blast
  have full: "?ret = 4 * c \<longleftrightarrow> c \<le> length live" by auto
  have len: "length ?pids = (if c \<le> length live then c else length live)" by simp
  have r: "ps__get_pids_round os (int c) p n0 w
             = ((if c \<le> length live then Inl ?q else Inr (?q, length live)), ?w3)"
    using m e c full byte_size(1) [OF c(2), of "WIN64 os"] byte_size(2) [OF c(2)]
    by (simp add: ps__get_pids_round_def Let_def min_def)
  have "length (trace ?w3) - 1 = now ?w2" by (simp add: now_def)
  with live have l3: "os_EnumProcesses os (length (trace ?w3) - 1) = Some live" by simp
  have h3: "heap ?w3 = (?q, 4 * c, Dwords ?pids) # H" using h1 by simp
  have t3: "trace ?w3 = trace w @ (es1 @ [E_malloc (4 * c) ?q])
              @ [E_EnumProcesses (4 * c) (Some (4 * min c (length live)))]"
    using es1 by (simp add: min_def)
  have "enum_calls (es1 @ [E_malloc (4 * c) ?q]) = []"
    using es1 by (simp add: enum_calls_append)
  with r live(2) l3 h3 t3 show ?thesis by blast
qed

lemma loop_converges:
  assumes mem: "\<forall>t n. os_malloc os t n"
    and enum: "\<forall>t. \<exists>live. os_EnumProcesses os t = Some live \<and> length live \<le> N"
    and K: "N < 1024 * K" "1024 * K < 2 ^ 30"
  shows "j < K \<Longrightarrow> owns p H w \<Longrightarrow>
         \<exists>q cnt k w' live es.
           ps__get_pids_loop os (1024 * int j) p n0 w = Some ((q, cnt), w') \<and>
           q \<noteq> 0 \<and> j < k \<and> k \<le> K \<and> cnt < 1024 * k \<and> cnt = length live \<and>
           os_EnumProcesses os (length (trace w') - 1) = Some live \<and>
           heap w' = (q, 4096 * k, Dwords live) # H \<and>
           trace w' = trace w @ es \<and>
           enum_calls es = map (\<lambda>i. (4096 * i, Some (4096 * i))) [Suc j..<k]
                             @ [(4096 * k, Some (4 * cnt))]"
proof (induction "K - j" arbitrary: j p w)
  case 0
  then show ?case by simp
next
  case (Suc d)
  let ?c = "1024 * Suc j"
  from Suc.prems(1) K have c: "0 < ?c" "?c < 2 ^ 30" by simp_all
  from round_converges [OF mem enum c Suc.prems(2), of n0] obtain q w1 live es where
    r: "ps__get_pids_round os (int ?c) p n0 w
          = ((if ?c \<le> length live then Inl q else Inr (q, length live)), w1)" and
    q: "q \<noteq> 0" "length live \<le> N"
      "os_EnumProcesses os (length (trace w1) - 1) = Some live"
      "heap w1 = (q, 4 * ?c, Dwords (take ?c live)) # H"
      "trace w1 = trace w @ es @ [E_EnumProcesses (4 * ?c) (Some (4 * min ?c (length live)))]"
      "enum_calls es = []"
    by blast
  have sz: "1024 * int j + 1024 = int ?c" by simp
  have r': "ps__get_pids_round os (1024 * int j + 1024) p n0 w
          = ((if ?c \<le> length live then Inl q else Inr (q, length live)), w1)"
    unfolding sz by (rule r)
  have nov: "\<not> 1024 * int j + 1024 > INT_MAX"
    using c(2) by (simp add: INT_MAX_def)
  show ?case
  proof (cases "?c \<le> length live")
    case False
    with r' nov have l: "ps__get_pids_loop os (1024 * int j) p n0 w
        = Some ((q, length live), w1)"
      by (subst ps__get_pids_loop.simps) simp
    from False have "min ?c (length live) = length live" "take ?c live = live" by simp_all
    with q have
      "heap w1 = (q, 4096 * Suc j, Dwords live) # H"
      "trace w1 = trace w @ (es @ [E_EnumProcesses (4096 * Suc j) (Some (4 * length live))])"
      "enum_calls (es @ [E_EnumProcesses (4096 * Suc j) (Some (4 * length live))])
         = map (\<lambda>i. (4096 * i, Some (4096 * i))) [Suc j..<Suc j]
             @ [(4096 * Suc j, Some (4 * length live))]"
      by (simp_all add: enum_calls_append)
    moreover from False have "length live < 1024 * Suc j" by simp
    moreover from Suc.prems(1) have "j < Suc j" "Suc j \<le> K" by simp_all
    ultimately show ?thesis using l q(1,3) by blast
  next
    case True
    with q(2) K(1) have j': "Suc j < K" by simp
    have "1024 * int (Suc j) = 1024 * int j + 1024" by simp
    with True r' nov have l: "ps__get_pids_loop os (1024 * int j) p n0 w
        = ps__get_pids_loop os (1024 * int (Suc j)) q n0 w1"
      by (subst ps__get_pids_loop.simps) (simp add: add.commute)
    from q(1,4) have o1: "owns q H w1" by (simp add: owns_def)
    from Suc.hyps(2) Suc.prems(1) have d: "d = K - Suc j" by simp
    from Suc.hyps(1) [OF d j' o1] obtain q' cnt k w' live' es' where
      ih: "ps__get_pids_loop os (1024 * int (Suc j)) q n0 w1 = Some ((q', cnt), w')"
        "q' \<noteq> 0" "Suc j < k" "k \<le> K" "cnt < 1024 * k" "cnt = length live'"
        "os_EnumProcesses os (length (trace w') - 1) = Some live'"
        "heap w' = (q', 4096 * k, Dwords live') # H"
        "trace w' = trace w1 @ es'"
        "enum_calls es' = map (\<lambda>i. (4096 * i, Some (4096 * i))) [Suc (Suc j)..<k]
                             @ [(4096 * k, Some (4 * cnt))]"
      by blast
    let ?e = "E_EnumProcesses (4096 * Suc j) (Some (4096 * Suc j))"
    from True have "min ?c (length live) = ?c" by simp
    with q(5) ih(9) have t: "trace w' = trace w @ (es @ [?e] @ es')" by simp
    from ih(3) have "[Suc j..<k] = Suc j # [Suc (Suc j)..<k]"
      by (simp add: upt_conv_Cons)
    with q(6) ih(10) have
      "enum_calls (es @ [?e] @ es') = map (\<lambda>i. (4096 * i, Some (4096 * i))) [Suc j..<k]
                             @ [(4096 * k, Some (4 * cnt))]"
      by (simp add: enum_calls_append)
    moreover from ih(3) have "j < k" by simp
    moreover from l ih(1)
    have "ps__get_pids_loop os (1024 * int j) p n0 w = Some ((q', cnt), w')" by simp
    ultimately show ?thesis using ih(2,4,5,6,7,8) t by blast
  qed
qed

text \<open>
  C5. Against a system that has memory, enumerates without error and never has more than
  \<open>N\<close> live processes (\<open>N + 1024 < 2^30\<close>, so that no size overflows), \<open>ps__get_pids\<close>
  returns. Its calls of \<open>EnumProcesses\<close> are made with capacities of 1024, 2048, ...,
  \<open>1024 * k\<close> slots (4096 bytes more each time); every call but the last came back with
  the buffer full, the last one with fewer bytes than the capacity; there are at most
  \<open>N div 1024 + 1\<close> calls. The count reported is the size returned by the last call
  divided by the slot size 4, it is below the capacity, and the array returned holds
  exactly the identifiers that were live at that call.
\<close>

theorem get_pids_converges:
  assumes "\<forall>t n. os_malloc os t n"
    and "\<forall>t. \<exists>live. os_EnumProcesses os t = Some live \<and> length live \<le> N"
    and "N + 1024 < 2 ^ 30"
  shows "\<exists>procArray cnt k ret w' live es.
           ps__get_pids os n0 w = Some ((procArray, cnt), w') \<and> procArray \<noteq> 0 \<and>
           1 \<le> k \<and> k \<le> N div 1024 + 1 \<and>
           trace w' = trace w @ es \<and>
           enum_calls es = map (\<lambda>i. (4096 * i, Some (4096 * i))) [1..<k]
                             @ [(4096 * k, Some ret)] \<and>
           ret < 4096 * k \<and> cnt = ret div 4 \<and> cnt < 1024 * k \<and>
           os_EnumProcesses os (length (trace w') - 1) = Some live \<and> cnt = length live \<and>
           heap w' = (procArray, 4096 * k, Dwords live) # heap w"
proof -
  let ?K = "N div 1024 + 1"
  have K: "N < 1024 * ?K" "1024 * ?K < 2 ^ 30"
    using assms(3) by simp_all
  have o: "owns 0 (heap w) w" by (simp add: owns_def)
  from loop_converges [OF assms(1,2) K, of 0 0 "heap w" w n0, OF _ o]
  obtain q cnt k w' live es where
    l: "ps__get_pids_loop os 0 0 n0 w = Some ((q, cnt), w')" "q \<noteq> 0" "0 < k" "k \<le> ?K"
      "cnt < 1024 * k" "cnt = length live"
      "os_EnumProcesses os (length (trace w') - 1) = Some live"
      "heap w' = (q, 4096 * k, Dwords live) # heap w" "trace w' = trace w @ es"
      "enum_calls es = map (\<lambda>i. (4096 * i, Some (4096 * i))) [Suc 0..<k]
                             @ [(4096 * k, Some (4 * cnt))]"
    by auto
  from l(1) have "ps__get_pids os n0 w = Some ((q, cnt), w')"
    by (simp add: ps__get_pids_def)
  moreover from l(3) have "1 \<le> k" by simp
  moreover from l(5) have "4 * cnt < 4096 * k" "cnt = (4 * cnt) div 4" by simp_all
  moreover from l(10) have
    "enum_calls es = map (\<lambda>i. (4096 * i, Some (4096 * i))) [1..<k]
                             @ [(4096 * k, Some (4 * cnt))]"
    by simp
  ultimately show ?thesis using l(2,4,5,6,7,8,9) by blast
qed

theorem get_pids_converges_witness:
  "(\<forall>t n. os_malloc os_crowded t n)
   \<and> (\<forall>t. \<exists>live. os_EnumProcesses os_crowded t = Some live \<and> length live \<le> 1024)
   \<and> (1024::nat) + 1024 < 2 ^ 30
   \<and> ps__get_pids os_crowded 0 w0
       = Some ((2, 1024),
               w0\<lparr>trace := [E_malloc 4096 1, E_EnumProcesses 4096 (Some 4096), E_free 1,
                             E_malloc 8192 2, E_EnumProcesses 8192 (Some 4096)],
                    heap := [(2, 8192, Dwords (map (\<lambda>i. word_of_nat (4 * i)) [0..<1024]))],
                    brk := 2\<rparr>)
   \<and> (\<exists>procArray cnt k ret w' live es.
           ps__get_pids os_crowded 0 w0 = Some ((procArray, cnt), w') \<and> procArray \<noteq> 0 \<and>
           k = 2 \<and> k \<le> 1024 div 1024 + 1 \<and>
           trace w' = trace w0 @ es \<and>
           enum_calls es = [(4096, Some 4096), (8192, Some ret)] \<and>
           ret < 8192 \<and> cnt = ret div 4 \<and> cnt = 1024 \<and> cnt < 1024 * k \<and>
           os_EnumProcesses os_crowded (length (trace w') - 1) = Some live \<and>
           cnt = length live \<and>
           heap w' = (procArray, 8192, Dwords live) # heap w0)"
proof -
  have a: "\<forall>t n. os_malloc os_crowded t n"
    by (simp add: os_crowded_def os_demo_def)
  have b: "\<forall>t. \<exists>live. os_EnumProcesses os_crowded t = Some live \<and> length live \<le> 1024"
    by (simp add: os_crowded_def)
  have c: "(1024::nat) + 1024 < 2 ^ 30" by simp
  have d: "ps__get_pids os_crowded 0 w0
       = Some ((2, 1024),
               w0\<lparr>trace := [E_malloc 4096 1, E_EnumProcesses 4096 (Some 4096), E_free 1,
                             E_malloc 8192 2, E_EnumProcesses 8192 (Some 4096)],
                    heap := [(2, 8192, Dwords (map (\<lambda>i. word_of_nat (4 * i)) [0..<1024]))],
                    brk := 2\<rparr>)"
    by (simp add: ps__get_pids_def ps__get_pids_loop.simps ps__get_pids_round_def INT_MAX_def
        free_def malloc_def EnumProcesses_def size_bits_def log_def now_def Let_def
        os_crowded_def os_demo_def w0_def)
  from get_pids_converges [OF a b c, of 0 w0]
  obtain procArray cnt k ret w' live es where
    r: "ps__get_pids os_crowded 0 w0 = Some ((procArray, cnt), w')" "procArray \<noteq> 0"
       "1 \<le> k" "k \<le> 1024 div 1024 + 1" "trace w' = trace w0 @ es"
       "enum_calls es = map (\<lambda>i. (4096 * i, Some (4096 * i))) [1..<k] @ [(4096 * k, Some ret)]"
       "ret < 4096 * k" "cnt = ret div 4" "cnt < 1024 * k"
       "os_EnumProcesses os_crowded (length (trace w') - 1) = Some live" "cnt = length live"
       "heap w' = (procArray, 4096 * k, Dwords live) # heap w0"
    by blast
  from r(10,11) have cnt: "cnt = 1024"
    by (auto simp: os_crowded_def)
  with r(4,9) have k: "k = 2" by simp
  have u: "[1..<2] = [1::nat]" by (simp add: upt_conv_Cons)
  from r(6) k u have e: "enum_calls es = [(4096, Some 4096), (8192, Some ret)]"
    by simp
  from r(7) k have f: "ret < 8192" by simp
  from r(9) k have g: "cnt < 1024 * k" by simp
  from r(12) k have h: "heap w' = (procArray, 8192, Dwords live) # heap w0" by simp
  from r(4) have i: "k \<le> 1024 div 1024 + 1" .
  have x: "\<exists>procArray cnt k ret w' live es.
           ps__get_pids os_crowded 0 w0 = Some ((procArray, cnt), w') \<and> procArray \<noteq> 0 \<and>
           k = 2 \<and> k \<le> 1024 div 1024 + 1 \<and>
           trace w' = trace w0 @ es \<and>
           enum_calls es = [(4096, Some 4096), (8192, Some ret)] \<and>
           ret < 8192 \<and> cnt = ret div 4 \<and> cnt = 1024 \<and> cnt < 1024 * k \<and>
           os_EnumProcesses os_crowded (length (trace w') - 1) = Some live \<and>
           cnt = length live \<and>
           heap w' = (procArray, 8192, Dwords live) # heap w0"
    using r(1,2) k i r(5) e f r(8) cnt g r(10,11) h by blast
  from a b c d x show ?thesis
    by (intro conjI)
qed

subsection \<open>The snapshot chain\<close>

lemma walk_chain:
  "chain recs off rs \<Longrightarrow> \<forall>x \<in> set (chain_offsets off rs). x < n \<Longrightarrow>
     ps__get_proc_info_walk recs n off pid = Some (first_match (unat pid) off rs)"
proof (induction recs off rs rule: chain.induct)
  case (1 recs off)
  then show ?case by simp
next
  case (2 recs off r)
  then show ?case
    by (subst ps__get_proc_info_walk.simps) simp
next
  case (3 recs off r r' rs)
  from "3.prems" have "ps__get_proc_info_walk recs n (off + NextEntryOffset r) pid
      = Some (first_match (unat pid) (off + NextEntryOffset r) (r' # rs))"
    by (intro "3.IH") simp_all
  with "3.prems" show ?case
    by (subst ps__get_proc_info_walk.simps) simp
qed

lemma chain_nth:
  "chain recs off rs \<Longrightarrow> j < length rs \<Longrightarrow> map_of recs (chain_offsets off rs ! j) = Some (rs ! j)"
proof (induction recs off rs arbitrary: j rule: chain.induct)
  case (1 recs off)
  then show ?case by simp
next
  case (2 recs off r)
  then show ?case by simp
next
  case (3 recs off r r' rs)
  then show ?case by (cases j) simp_all
qed

lemma first_match_found:
  "i < length rs \<Longrightarrow> UniqueProcessId (rs ! i) = pid \<Longrightarrow>
     \<exists>j \<le> i. first_match pid off rs = Some (chain_offsets off rs ! j) \<and>
              UniqueProcessId (rs ! j) = pid"
proof (induction rs arbitrary: i off)
  case Nil
  then show ?case by simp
next
  case (Cons r rs)
  show ?case
  proof (cases "UniqueProcessId r = pid")
    case True
    then have "first_match pid off (r # rs) = Some (chain_offsets off (r # rs) ! 0) \<and>
               UniqueProcessId ((r # rs) ! 0) = pid" by simp
    then show ?thesis by blast
  next
    case False
    with Cons.prems obtain i' where i': "i = Suc i'" by (cases i) auto
    with Cons.prems have "i' < length rs" "UniqueProcessId (rs ! i') = pid" by simp_all
    from Cons.IH [OF this, of "off + NextEntryOffset r"] obtain j where
      "j \<le> i'" "first_match pid (off + NextEntryOffset r) rs
                 = Some (chain_offsets (off + NextEntryOffset r) rs ! j)"
      "UniqueProcessId (rs ! j) = pid" by blast
    with False i' have "Suc j \<le> i \<and>
        first_match pid off (r # rs) = Some (chain_offsets off (r # rs) ! Suc j) \<and>
        UniqueProcessId ((r # rs) ! Suc j) = pid" by simp
    then show ?thesis by blast
  qed
qed

lemma first_match_none:
  "\<forall>r \<in> set rs. UniqueProcessId r \<noteq> pid \<Longrightarrow> first_match pid off rs = None"
  by (induction rs arbitrary: off) simp_all

lemma query_frame:
  assumes a: "ps__get_proc_info_query os0 buffer0 bufferSize0 w0' = Some y0"
  shows "query_post buffer0 w0' y0"
proof (rule ps__get_proc_info_query.raw_induct
         [where P = "\<lambda>os buffer bufferSize w y. query_post buffer w y", OF _ a])
  fix query os buffer bufferSize w y
  assume IH: "\<And>os buffer bufferSize w y.
                query os buffer bufferSize w = Some y \<Longrightarrow> query_post buffer w y"
    and body: "(case QuerySystemInformation os buffer bufferSize w of
        ((status, bufferSize), w) \<Rightarrow>
          if too_small status
          then case malloc os bufferSize (free buffer w) of
                 (buffer, w) \<Rightarrow>
                   if buffer = 0 then Some ((status, 0, bufferSize), set_error NoMemory w)
                   else query os buffer bufferSize w
          else Some ((status, buffer, bufferSize), w)) = Some y"
  show "query_post buffer w y"
    unfolding query_post_def
  proof (intro allI impI, elim conjE)
    fix H n0 c
    assume nz: "buffer \<noteq> 0" and h: "heap w = (buffer, n0, c) # H"
    obtain status len w1 where
      q: "QuerySystemInformation os buffer bufferSize w = ((status, len), w1)"
      by (cases "QuerySystemInformation os buffer bufferSize w") auto
    from q h have w1: "handles w1 = handles w" "ntdll_refs w1 = ntdll_refs w"
      "initialBufferSize w1 = initialBufferSize w"
      "\<exists>c'. heap w1 = (buffer, n0, c') # H \<and>
             (\<forall>recs. status = STATUS_SUCCESS recs \<longrightarrow> c' = Snapshot recs)"
      by (auto simp: QuerySystemInformation_def Let_def
               split: prod.splits snapshot_status.splits)
    show "case y of ((status, b', s'), w') \<Rightarrow>
              handles w' = handles w \<and> ntdll_refs w' = ntdll_refs w \<and>
              initialBufferSize w' = initialBufferSize w \<and>
              (if b' = 0 then heap w' = H \<and> err w' = Some NoMemory \<and> too_small status
               else \<exists>n c'. heap w' = (b', n, c') # H \<and>
                      (\<forall>recs. status = STATUS_SUCCESS recs \<longrightarrow> c' = Snapshot recs))"
    proof (cases "too_small status")
      case False
      with body q have y: "y = ((status, buffer, len), w1)" by simp
      from w1 y nz show ?thesis by auto
    next
      case True
      obtain b2 w2 where m: "malloc os len (free buffer w1) = (b2, w2)"
        by (cases "malloc os len (free buffer w1)")
      from w1(4) obtain c' where h1: "heap w1 = (buffer, n0, c') # H" by blast
      have hf: "heap (free buffer w1) = H"
        "handles (free buffer w1) = handles w1"
        "ntdll_refs (free buffer w1) = ntdll_refs w1"
        "initialBufferSize (free buffer w1) = initialBufferSize w1"
        using h1 nz by (simp_all add: free_def)
      from m hf have w2: "handles w2 = handles w1" "ntdll_refs w2 = ntdll_refs w1"
        "initialBufferSize w2 = initialBufferSize w1"
        "if b2 = 0 then heap w2 = H else heap w2 = (b2, len, Uninit) # H"
        by (auto simp: malloc_def Let_def split: if_splits)
      show ?thesis
      proof (cases "b2 = 0")
        case b0: True
        with body q True m have y: "y = ((status, 0, len), set_error NoMemory w2)"
          by simp
        with w1 w2 b0 True show ?thesis by simp
      next
        case b1: False
        with body q True m have r: "query os b2 len w2 = Some y"
          by simp
        from b1 w2 have "b2 \<noteq> 0 \<and> heap w2 = (b2, len, Uninit) # H" by simp
        with IH [OF r, unfolded query_post_def] w1 w2 show ?thesis
          by (auto split: prod.splits)
      qed
    qed
  qed
qed

text \<open>
  C7. Let the query loop end with a snapshot in a buffer of \<open>n\<close> bytes, and let the
  buffer hold a chain \<open>rs\<close> of records from offset 0 on, each inside the buffer, linked by
  their next-entry offsets, the last one with offset 0. If a record at any position \<open>i\<close>
  of the chain carries the PID, \<open>ps__get_proc_info\<close> returns 1 with \<open>*retProcess\<close> the
  address of the first such record (at a position \<open>j \<le> i\<close>) and \<open>*retBuffer\<close> the buffer,
  which stays allocated: it is the caller's now. If no record of the chain carries the
  PID, it returns 0 with the outputs untouched, the error NoSuchProcess set and the
  buffer freed.
\<close>

theorem proc_info_walks_the_chain:
  assumes ex: "exports os NtQuerySystemInformation"
    and m: "malloc os (initialBufferSize w)
              (snd (GetProcAddress os NtQuerySystemInformation (LoadLibrary w))) = (b0, w1)"
      "b0 \<noteq> 0"
    and q: "ps__get_proc_info_query os b0 (initialBufferSize w) w1
              = Some ((STATUS_SUCCESS recs, buffer, bufferSize), w2)"
    and n: "heap_lookup (heap w2) buffer = Some (n, c)"
    and ch: "chain recs 0 rs" "\<forall>x \<in> set (chain_offsets 0 rs). x < n"
  shows "(\<forall>i. i < length rs \<and> UniqueProcessId (rs ! i) = unat pid \<longrightarrow>
            (\<exists>j w'. j \<le> i \<and> UniqueProcessId (rs ! j) = unat pid \<and>
               map_of recs (chain_offsets 0 rs ! j) = Some (rs ! j) \<and>
               ps__get_proc_info os pid retProcess retBuffer w
                 = Some ((1, buffer + chain_offsets 0 rs ! j, buffer), w') \<and>
               heap w' = (buffer, n, Snapshot recs) # heap w))
         \<and> ((\<forall>r \<in> set rs. UniqueProcessId r \<noteq> unat pid) \<longrightarrow>
            (\<exists>w'. ps__get_proc_info os pid retProcess retBuffer w
                     = Some ((0, retProcess, retBuffer), w') \<and>
                  err w' = Some (NoSuchProcess pid) \<and> heap w' = heap w))"
proof -
  from m have h1: "heap w1 = (b0, initialBufferSize w, Uninit) # heap w"
    by (auto simp: malloc_def GetProcAddress_def LoadLibrary_def Let_def split: if_splits)
  from query_frame [OF q] m(2) h1 have
    f: "if buffer = 0 then too_small (STATUS_SUCCESS recs)
        else \<exists>n c'. heap w2 = (buffer, n, c') # heap w \<and> c' = Snapshot recs"
    by (auto simp: query_post_def split: if_splits)
  then have bz: "buffer \<noteq> 0" by (auto simp: too_small_def split: if_splits)
  with f n have h2: "heap w2 = (buffer, n, Snapshot recs) # heap w"
    by (auto simp: heap_lookup_def)
  define w3 where "w3 = (if bufferSize \<le> 0x20000 then w2\<lparr>initialBufferSize := bufferSize\<rparr>
                         else w2)"
  have h3: "heap w3 = (buffer, n, Snapshot recs) # heap w"
    using h2 by (simp add: w3_def)
  from walk_chain [OF ch, of pid] have
    wk: "ps__get_proc_info_walk recs n 0 pid = Some (first_match (unat pid) 0 rs)" .
  have run: "ps__get_proc_info os pid retProcess retBuffer w =
      (case first_match (unat pid) 0 rs of
         Some process \<Rightarrow> Some ((1, buffer + process, buffer), w3)
       | None \<Rightarrow> Some ((0, retProcess, retBuffer),
                        gpi_error buffer (set_error (NoSuchProcess pid) w3)))"
    using ex m q bz h3 wk
    by (cases "bufferSize \<le> 0x20000")
       (simp_all add: ps__get_proc_info_def Let_def GetProcAddress_def LoadLibrary_def
             heap_lookup_def w3_def
             split: option.splits)
  show ?thesis
  proof (intro conjI allI impI)
    fix i
    assume i: "i < length rs \<and> UniqueProcessId (rs ! i) = unat pid"
    with first_match_found [of i rs "unat pid" 0] obtain j where
      j: "j \<le> i" "first_match (unat pid) 0 rs = Some (chain_offsets 0 rs ! j)"
        "UniqueProcessId (rs ! j) = unat pid" by blast
    from j(1) i have "j < length rs" by simp
    from chain_nth [OF ch(1) this] j run h3
    show "\<exists>j w'. j \<le> i \<and> UniqueProcessId (rs ! j) = unat pid \<and>
               map_of recs (chain_offsets 0 rs ! j) = Some (rs ! j) \<and>
               ps__get_proc_info os pid retProcess retBuffer w
                 = Some ((1, buffer + chain_offsets 0 rs ! j, buffer), w') \<and>
               heap w' = (buffer, n, Snapshot recs) # heap w"
      by auto
  next
    assume "\<forall>r \<in> set rs. UniqueProcessId r \<noteq> unat pid"
    then have "first_match (unat pid) 0 rs = None" by (rule first_match_none)
    with run h3 bz
    show "\<exists>w'. ps__get_proc_info os pid retProcess retBuffer w
                     = Some ((0, retProcess, retBuffer), w') \<and>
                  err w' = Some (NoSuchProcess pid) \<and> heap w' = heap w"
      by (simp add: gpi_error_def FreeLibrary_def free_def Let_def)
  qed
qed

theorem proc_info_walks_the_chain_witness:
  "exports os_snapshot NtQuerySystemInformation
   \<and> chain snapshot_demo 0 chain_demo
   \<and> chain_offsets 0 chain_demo = [0, 0x100, 0x280]
   \<and> UniqueProcessId (chain_demo ! 2) = unat (42 :: DWORD)
   \<and> map_option fst (ps__get_proc_info os_snapshot 42 0 0 w0) = Some (1, 2 + 0x280, 2)
   \<and> map_option fst (ps__get_proc_info os_snapshot 99 0 0 w0) = Some (0, 0, 0)"
proof -
  let ?wl = "snd (GetProcAddress os_snapshot NtQuerySystemInformation (LoadLibrary w0))"
  let ?w1 = "snd (malloc os_snapshot (initialBufferSize w0) ?wl)"
  have ex: "exports os_snapshot NtQuerySystemInformation"
    by (simp add: os_snapshot_def os_demo_def)
  have m: "malloc os_snapshot (initialBufferSize w0) ?wl = (1, ?w1)"
    by (simp add: malloc_def GetProcAddress_def LoadLibrary_def os_snapshot_def os_demo_def
        w0_def Let_def)
  have "\<exists>w2. ps__get_proc_info_query os_snapshot 1 (initialBufferSize w0) ?w1
                 = Some ((STATUS_SUCCESS snapshot_demo, 2, 0x4800), w2) \<and>
              heap_lookup (heap w2) 2 = Some (0x5000, Snapshot snapshot_demo)"
    by (simp add: ps__get_proc_info_query.simps QuerySystemInformation_def too_small_def
        malloc_def free_def GetProcAddress_def LoadLibrary_def heap_lookup_def log_def now_def
        Let_def os_snapshot_def os_demo_def w0_def)
  then obtain w2 where
    q: "ps__get_proc_info_query os_snapshot 1 (initialBufferSize w0) ?w1
          = Some ((STATUS_SUCCESS snapshot_demo, 2, 0x4800), w2)" and
    n: "heap_lookup (heap w2) 2 = Some (0x5000, Snapshot snapshot_demo)"
    by blast
  have ch: "chain snapshot_demo 0 chain_demo"
    by (simp add: snapshot_demo_def chain_demo_def)
  have off: "chain_offsets 0 chain_demo = [0, 0x100, 0x280]"
    by (simp add: chain_demo_def)
  then have inb: "\<forall>x \<in> set (chain_offsets 0 chain_demo). x < 0x5000"
    by simp
  have p42: "UniqueProcessId (chain_demo ! 2) = unat (42 :: DWORD)"
    by (simp add: chain_demo_def)
  have p99: "\<forall>r \<in> set chain_demo. UniqueProcessId r \<noteq> unat (99 :: DWORD)"
    by (simp add: chain_demo_def)
  note t = proc_info_walks_the_chain [OF ex m _ q n ch inb]
  have len: "2 < length chain_demo" by (simp add: chain_demo_def)
  from t [of 42 0 0, THEN conjunct1, THEN spec, of 2] len p42 obtain j w' where
    j: "j \<le> 2" "UniqueProcessId (chain_demo ! j) = unat (42 :: DWORD)"
      "ps__get_proc_info os_snapshot 42 0 0 w0
         = Some ((1, 2 + chain_offsets 0 chain_demo ! j, 2), w')"
    by blast
  from j(1) have "j = 0 \<or> j = 1 \<or> j = 2" by auto
  with j(2) have "j = 2" by (auto simp: chain_demo_def)
  with j(3) off have a: "map_option fst (ps__get_proc_info os_snapshot 42 0 0 w0)
      = Some (1, 2 + 0x280, 2)" by simp
  from t [of 99 0 0, THEN conjunct2] p99 obtain w'' where
    "ps__get_proc_info os_snapshot 99 0 0 w0 = Some ((0, 0, 0), w'')" by blast
  then have b: "map_option fst (ps__get_proc_info os_snapshot 99 0 0 w0) = Some (0, 0, 0)"
    by simp
  from ex ch off p42 a b show ?thesis by simp
qed

end
